theory Spec2Isabelle
  imports Complex_Main "HOL-Library.Sublist"
begin

section \<open>JavaScript values\<close>

text \<open>
  The library works on plain JavaScript data: schemas, form values, layout
  configurations and fields are all objects, arrays and primitives. A number is an
  IEEE double; every finite double is a rational, so \<open>Fin r\<close> carries the value and
  the three non-finite doubles are constructors of their own. An object is the list
  of its own enumerable properties in insertion order; a property whose value is
  \<open>undefined\<close> is still a property of the object (\<open>{columns: undefined}\<close> has the key
  \<open>columns\<close>), which matters for object spread. A function value is known by an
  identity only.
\<close>

datatype jsnum = Fin rat | NaN | PosInf | NegInf

datatype jsval =
    JUndefined
  | JNull
  | JBool bool
  | JNum jsnum
  | JStr string
  | JFun nat
  | JArr "jsval list"
  | JObj "(string \<times> jsval) list"

text \<open>ToBoolean: \<open>!v\<close> is \<open>\<not> truthy v\<close>.\<close>

fun truthy :: "jsval \<Rightarrow> bool" where
  "truthy JUndefined = False"
| "truthy JNull = False"
| "truthy (JBool b) = b"
| "truthy (JNum (Fin r)) = (r \<noteq> 0)"
| "truthy (JNum NaN) = False"
| "truthy (JNum PosInf) = True"
| "truthy (JNum NegInf) = True"
| "truthy (JStr s) = (s \<noteq> [])"
| "truthy (JFun f) = True"
| "truthy (JArr xs) = True"
| "truthy (JObj kvs) = True"

fun typeof :: "jsval \<Rightarrow> string" where
  "typeof JUndefined = ''undefined''"
| "typeof JNull = ''object''"
| "typeof (JBool b) = ''boolean''"
| "typeof (JNum n) = ''number''"
| "typeof (JStr s) = ''string''"
| "typeof (JFun f) = ''function''"
| "typeof (JArr xs) = ''object''"
| "typeof (JObj kvs) = ''object''"

text \<open>The decimal name of an array index, as a property key.\<close>

definition digit_char :: "nat \<Rightarrow> char" where
  "digit_char d = ''0123456789'' ! (d mod 10)"

fun index_digits :: "nat \<Rightarrow> nat \<Rightarrow> string" where
  "index_digits 0 n = []"
| "index_digits (Suc fuel) n =
     (if n < 10 then [digit_char n]
      else index_digits fuel (n div 10) @ [digit_char (n mod 10)])"

definition index_key :: "nat \<Rightarrow> string" where
  "index_key n = index_digits (Suc n) n"

text \<open>
  An object has each key once. Where a list repeats a key, its first entry is the
  property and the later ones are no part of the object; \<open>firsts\<close> keeps the
  properties, in order.
\<close>

fun firsts :: "'k list \<Rightarrow> ('k \<times> 'v) list \<Rightarrow> ('k \<times> 'v) list" where
  "firsts seen [] = []"
| "firsts seen ((k, v) # kvs) =
     (if k \<in> set seen then firsts seen kvs else (k, v) # firsts (k # seen) kvs)"

text \<open>
  The own enumerable properties of a value, the ones \<open>{...v}\<close> copies: the entries of
  an object, the indexed elements of an array (its \<open>length\<close> is not enumerable), the
  indexed characters of a string, nothing for the other primitives and for functions.
\<close>

fun listed_entries :: "jsval \<Rightarrow> (string \<times> jsval) list" where
  "listed_entries (JObj kvs) = kvs"
| "listed_entries (JArr xs) = zip (map index_key [0..<length xs]) xs"
| "listed_entries (JStr s) = zip (map index_key [0..<length s]) (map (\<lambda>c. JStr [c]) s)"
| "listed_entries v = []"

definition own_entries :: "jsval \<Rightarrow> (string \<times> jsval) list" where
  "own_entries v = firsts [] (listed_entries v)"

text \<open>
  Reading a property \<open>v[k]\<close> of a value that is neither \<open>null\<close> nor \<open>undefined\<close>: an
  own property when there is one, the \<open>length\<close> of an array or a string, and
  \<open>undefined\<close> otherwise. (On \<open>null\<close> and \<open>undefined\<close> JavaScript throws a TypeError;
  the functions below never read a property of either, each read is behind a
  truthiness or \<open>!== null\<close> guard, so \<open>undefined\<close> stands there.) The inherited
  properties of the built-in prototypes have other names than the keys read in this
  development.
\<close>

definition getprop :: "jsval \<Rightarrow> string \<Rightarrow> jsval" where
  "getprop v k =
     (case map_of (own_entries v) k of
        Some x \<Rightarrow> x
      | None \<Rightarrow>
          (if k = ''length'' then
             (case v of
                JArr xs \<Rightarrow> JNum (Fin (of_nat (length xs)))
              | JStr s \<Rightarrow> JNum (Fin (of_nat (length s)))
              | _ \<Rightarrow> JUndefined)
           else JUndefined))"

text \<open>
  Writing a property: an existing key keeps its place and takes the new value, a
  new key goes to the end. Object spread \<open>{...a, ...b}\<close> writes the own enumerable
  properties of \<open>a\<close>, then those of \<open>b\<close>, into a fresh object.
\<close>

fun setprop :: "string \<Rightarrow> jsval \<Rightarrow> (string \<times> jsval) list \<Rightarrow> (string \<times> jsval) list" where
  "setprop k v [] = [(k, v)]"
| "setprop k v ((k', v') # kvs) =
     (if k' = k then (k, v) # kvs else (k', v') # setprop k v kvs)"

fun assign :: "(string \<times> jsval) list \<Rightarrow> (string \<times> jsval) list \<Rightarrow> (string \<times> jsval) list" where
  "assign target [] = target"
| "assign target ((k, v) # src) = assign (setprop k v target) src"

definition spread2 :: "jsval \<Rightarrow> jsval \<Rightarrow> jsval" where
  "spread2 a b = JObj (assign (assign [] (own_entries a)) (own_entries b))"

text \<open>\<open>Number.isInteger(v)\<close>: a number, finite, with no fractional part.\<close>

fun isInteger :: "jsval \<Rightarrow> bool" where
  "isInteger (JNum (Fin r)) = (of_int \<lfloor>r\<rfloor> = r)"
| "isInteger v = False"

text \<open>
  \<open>v < 1\<close> for a number \<open>v\<close>. The source evaluates it only behind
  \<open>Number.isInteger(v)\<close>, so on numbers; for other values the comparison is not
  reached and \<open>False\<close> stands.
\<close>

fun lessThanOne :: "jsval \<Rightarrow> bool" where
  "lessThanOne (JNum (Fin r)) = (r < 1)"
| "lessThanOne (JNum NegInf) = True"
| "lessThanOne v = False"

section \<open>Fields (src/field/type.ts, src/types.ts)\<close>

text \<open>
  \<open>AsyncOptionsConfig\<close>, the async-options block of \<open>x-jsf-presentation\<close>: only
  \<open>id\<close> is required.
\<close>

datatype AsyncOptionsConfig = AsyncOptionsConfig
  (ao_id: string)
  (ao_params: "(string \<times> jsval) list option")
  (ao_dependencies: "string list option")
  (ao_searchable: "bool option")
  (ao_paginated: "bool option")
  (ao_debounceMs: "rat option")

text \<open>
  The \<open>asyncOptions\<close> of a field: the configuration and, when the caller registered
  one under the configuration's id, the loader function.
\<close>

datatype FieldAsyncOptions = FieldAsyncOptions
  (fa_config: AsyncOptionsConfig)
  (fa_loader: "nat option")

text \<open>
  A \<open>Field\<close> of the output tree, with the properties this development reads or
  builds; an optional property is an \<open>option\<close>, \<open>layout\<close> and \<open>_rootLayout\<close> hold the
  JavaScript value found there (\<open>undefined\<close> when the property is absent), and
  \<open>f_extra\<close> holds the remaining properties, which the interface leaves open
  (\<open>[key: string]: unknown\<close>).
\<close>

datatype Field = Field
  (f_name: string)
  (f_label: "string option")
  (f_inputType: string)
  (f_jsonType: "string list")
  (f_required: bool)
  (f_isVisible: bool)
  (f_options: "jsval list option")
  (f_asyncOptions: "FieldAsyncOptions option")
  (f_fields: "Field list option")
  (f_layout: jsval)
  (f_rootLayout: jsval)
  (f_extra: "(string \<times> jsval) list")

section \<open>Layout utilities (src/utils/layout.ts)\<close>

definition DEFAULT_LAYOUT_CONFIG :: jsval where
  "DEFAULT_LAYOUT_CONFIG =
     JObj [(''type'', JStr ''columns''), (''columns'', JNum (Fin 1)), (''gap'', JStr ''16px'')]"

definition responsiveKeys :: "string list" where
  "responsiveKeys = [''sm'', ''md'', ''lg'', ''xl'']"

definition colProps :: "string list" where
  "colProps = [''colSpan'', ''colStart'', ''colEnd'']"

text \<open>
  The test both loops over the breakpoints apply to a value read from a responsive
  object: \<open>value !== undefined && (!Number.isInteger(value) || value < 1)\<close>.
\<close>

definition badBreakpoint :: "jsval \<Rightarrow> bool" where
  "badBreakpoint value = (value \<noteq> JUndefined \<and> (\<not> isInteger value \<or> lessThanOne value))"

text \<open>
  One round of the loop over \<open>colProps\<close>: \<open>True\<close> when the loop returns \<open>false\<close> for
  this property. A number must be an integer of at least 1, an object (an array is
  one) must have no bad breakpoint, \<open>undefined\<close> is skipped, and anything else
  (\<open>null\<close>, a string, a boolean, a function) is refused.
\<close>

definition badColProp :: "jsval \<Rightarrow> bool" where
  "badColProp value =
     (if value \<noteq> JUndefined then
        (if typeof value = ''number'' then (\<not> isInteger value \<or> lessThanOne value)
         else if typeof value = ''object'' \<and> value \<noteq> JNull then
           list_ex (\<lambda>key. badBreakpoint (getprop value key)) responsiveKeys
         else True)
      else False)"

definition isValidLayoutConfig :: "jsval \<Rightarrow> bool" where
  "isValidLayoutConfig layout =
     (if \<not> truthy layout \<or> typeof layout \<noteq> ''object'' then False
      else if truthy (getprop layout ''type'') \<and> getprop layout ''type'' \<noteq> JStr ''columns''
        then False
      else if getprop layout ''columns'' \<noteq> JUndefined \<and>
              (\<not> isInteger (getprop layout ''columns'') \<or> lessThanOne (getprop layout ''columns''))
        then False
      else if truthy (getprop layout ''gap'') \<and> typeof (getprop layout ''gap'') \<noteq> ''string''
        then False
      else if truthy (getprop layout ''responsive'') \<and>
              list_ex (\<lambda>key. badBreakpoint (getprop (getprop layout ''responsive'') key))
                responsiveKeys
        then False
      else if list_ex (\<lambda>prop. badColProp (getprop layout prop)) colProps then False
      else True)"

definition normalizeLayoutConfig :: "jsval \<Rightarrow> jsval" where
  "normalizeLayoutConfig layout =
     (if \<not> truthy layout \<or> \<not> isValidLayoutConfig layout then DEFAULT_LAYOUT_CONFIG
      else spread2 DEFAULT_LAYOUT_CONFIG layout)"


text \<open>\<open>field.layout || null\<close> and \<open>field._rootLayout || null\<close>.\<close>

definition getFieldLayoutInfo :: "Field \<Rightarrow> jsval" where
  "getFieldLayoutInfo field = (if truthy (f_layout field) then f_layout field else JNull)"

definition getRootLayoutInfo :: "Field \<Rightarrow> jsval" where
  "getRootLayoutInfo field = (if truthy (f_rootLayout field) then f_rootLayout field else JNull)"

definition getFormContainerLayout :: "Field list \<Rightarrow> jsval" where
  "getFormContainerLayout fields =
     (if length fields = 0 then JNull else getRootLayoutInfo (fields ! 0))"

section \<open>Properties of the layout utilities\<close>

subsection \<open>Objects and spread\<close>

lemma map_of_firsts:
  "map_of (firsts seen kvs) k = (if k \<in> set seen then None else map_of kvs k)"
  by (induction seen kvs rule: firsts.induct) auto

lemma firsts_fresh: "fst ` set (firsts seen kvs) \<inter> set seen = {}"
  by (induction seen kvs rule: firsts.induct) auto

lemma distinct_firsts: "distinct (map fst (firsts seen kvs))"
proof (induction seen kvs rule: firsts.induct)
  case (1 seen)
  show ?case by simp
next
  case (2 seen k v kvs)
  have "k \<notin> fst ` set (firsts (k # seen) kvs)"
    using firsts_fresh [of "k # seen" kvs] by auto
  with 2 show ?case by simp
qed

lemma distinct_own_entries: "distinct (map fst (own_entries v))"
  by (simp add: own_entries_def distinct_firsts)

lemma map_of_setprop: "map_of (setprop k v kvs) = (map_of kvs)(k \<mapsto> v)"
  by (induction k v kvs rule: setprop.induct) auto

lemma map_of_assign:
  "distinct (map fst src) \<Longrightarrow> map_of (assign t src) k =
     (case map_of src k of Some v \<Rightarrow> Some v | None \<Rightarrow> map_of t k)"
proof (induction t src rule: assign.induct)
  case (1 target)
  show ?case by simp
next
  case (2 target k' v src)
  from 2 have d: "distinct (map fst src)" and n: "k' \<notin> fst ` set src" by auto
  from n have none: "map_of src k' = None" by (simp add: map_of_eq_None_iff)
  show ?case using 2(1) [OF d] none
    by (auto simp: map_of_setprop split: option.splits)
qed

lemma getprop_JObj:
  "getprop (JObj kvs) k = (case map_of kvs k of Some v \<Rightarrow> v | None \<Rightarrow> JUndefined)"
  by (simp add: getprop_def own_entries_def map_of_firsts split: option.splits)

lemma getprop_own:
  "k \<noteq> ''length'' \<Longrightarrow>
   getprop v k = (case map_of (own_entries v) k of Some x \<Rightarrow> x | None \<Rightarrow> JUndefined)"
  by (simp add: getprop_def)

lemma getprop_spread2:
  "getprop (spread2 a b) k =
     (case map_of (own_entries b) k of
        Some v \<Rightarrow> v
      | None \<Rightarrow> (case map_of (own_entries a) k of Some v \<Rightarrow> v | None \<Rightarrow> JUndefined))"
  by (simp add: spread2_def getprop_JObj map_of_assign distinct_own_entries split: option.splits)

subsection \<open>The validity test, keyword by keyword\<close>

lemma isValidLayoutConfig_iff:
  "isValidLayoutConfig layout \<longleftrightarrow>
     truthy layout \<and> typeof layout = ''object'' \<and>
     \<not> (truthy (getprop layout ''type'') \<and> getprop layout ''type'' \<noteq> JStr ''columns'') \<and>
     \<not> (getprop layout ''columns'' \<noteq> JUndefined \<and>
        (\<not> isInteger (getprop layout ''columns'') \<or> lessThanOne (getprop layout ''columns''))) \<and>
     \<not> (truthy (getprop layout ''gap'') \<and> typeof (getprop layout ''gap'') \<noteq> ''string'') \<and>
     \<not> (truthy (getprop layout ''responsive'') \<and>
        list_ex (\<lambda>key. badBreakpoint (getprop (getprop layout ''responsive'') key)) responsiveKeys) \<and>
     \<not> list_ex (\<lambda>p. badColProp (getprop layout p)) colProps"
  unfolding isValidLayoutConfig_def by (simp only: if_bool_eq_conj split: if_splits) blast

lemma getprop_DEFAULT_own:
  "getprop DEFAULT_LAYOUT_CONFIG k =
     (case map_of (own_entries DEFAULT_LAYOUT_CONFIG) k of Some v \<Rightarrow> v | None \<Rightarrow> JUndefined)"
  by (simp add: DEFAULT_LAYOUT_CONFIG_def getprop_def split: option.splits)

lemma getprop_DEFAULT_other:
  "k \<noteq> ''type'' \<Longrightarrow> k \<noteq> ''columns'' \<Longrightarrow> k \<noteq> ''gap'' \<Longrightarrow>
   getprop DEFAULT_LAYOUT_CONFIG k = JUndefined"
  by (simp add: DEFAULT_LAYOUT_CONFIG_def getprop_JObj)

lemma getprop_DEFAULT:
  "getprop DEFAULT_LAYOUT_CONFIG ''type'' = JStr ''columns''"
  "getprop DEFAULT_LAYOUT_CONFIG ''columns'' = JNum (Fin 1)"
  "getprop DEFAULT_LAYOUT_CONFIG ''gap'' = JStr ''16px''"
  by (simp_all add: DEFAULT_LAYOUT_CONFIG_def getprop_JObj)

lemma isValid_DEFAULT: "isValidLayoutConfig DEFAULT_LAYOUT_CONFIG"
  by (simp add: isValidLayoutConfig_def DEFAULT_LAYOUT_CONFIG_def getprop_JObj
      responsiveKeys_def colProps_def badColProp_def)

subsection \<open>The merged configuration\<close>

lemma getprop_merged:
  "getprop (spread2 DEFAULT_LAYOUT_CONFIG layout) k =
     (case map_of (own_entries layout) k of
        Some v \<Rightarrow> v
      | None \<Rightarrow> getprop DEFAULT_LAYOUT_CONFIG k)"
  by (simp add: getprop_spread2 getprop_DEFAULT_own split: option.splits)

lemma getprop_merged_other:
  assumes "k \<noteq> ''length''" "k \<noteq> ''type''" "k \<noteq> ''columns''" "k \<noteq> ''gap''"
  shows "getprop (spread2 DEFAULT_LAYOUT_CONFIG layout) k = getprop layout k"
  using assms
  by (simp add: getprop_merged getprop_own [of k layout] getprop_DEFAULT_other
      split: option.splits)

lemma getprop_merged_default:
  assumes "k \<noteq> ''length''"
  shows "getprop (spread2 DEFAULT_LAYOUT_CONFIG layout) k = getprop layout k \<or>
         getprop (spread2 DEFAULT_LAYOUT_CONFIG layout) k = getprop DEFAULT_LAYOUT_CONFIG k"
  using assms
  by (simp add: getprop_merged getprop_own [of k layout] split: option.splits)

lemma isValid_merged:
  assumes v: "isValidLayoutConfig layout"
  shows "isValidLayoutConfig (spread2 DEFAULT_LAYOUT_CONFIG layout)"
proof -
  let ?r = "spread2 DEFAULT_LAYOUT_CONFIG layout"
  have r: "getprop ?r ''responsive'' = getprop layout ''responsive''"
    by (rule getprop_merged_other) simp_all
  have c: "getprop ?r p = getprop layout p" if "p \<in> set colProps" for p
    using that by (intro getprop_merged_other) (auto simp: colProps_def)
  have t: "getprop ?r ''type'' = getprop layout ''type'' \<or> getprop ?r ''type'' = JStr ''columns''"
    using getprop_merged_default [of "''type''" layout] by (simp add: getprop_DEFAULT)
  have n: "getprop ?r ''columns'' = getprop layout ''columns'' \<or>
           getprop ?r ''columns'' = JNum (Fin 1)"
    using getprop_merged_default [of "''columns''" layout] by (simp add: getprop_DEFAULT)
  have g: "getprop ?r ''gap'' = getprop layout ''gap'' \<or> getprop ?r ''gap'' = JStr ''16px''"
    using getprop_merged_default [of "''gap''" layout] by (simp add: getprop_DEFAULT)
  have cols: "list_ex (\<lambda>p. badColProp (getprop ?r p)) colProps =
              list_ex (\<lambda>p. badColProp (getprop layout p)) colProps"
    using c by (simp add: list_ex_iff)
  have obj: "truthy ?r" "typeof ?r = ''object''" by (simp_all add: spread2_def)
  from v have v':
     "\<not> (truthy (getprop layout ''type'') \<and> getprop layout ''type'' \<noteq> JStr ''columns'')"
     "\<not> (getprop layout ''columns'' \<noteq> JUndefined \<and>
        (\<not> isInteger (getprop layout ''columns'') \<or> lessThanOne (getprop layout ''columns'')))"
     "\<not> (truthy (getprop layout ''gap'') \<and> typeof (getprop layout ''gap'') \<noteq> ''string'')"
     "\<not> (truthy (getprop layout ''responsive'') \<and>
        list_ex (\<lambda>key. badBreakpoint (getprop (getprop layout ''responsive'') key)) responsiveKeys)"
     "\<not> list_ex (\<lambda>p. badColProp (getprop layout p)) colProps"
    by (simp_all add: isValidLayoutConfig_iff)
  have t': "\<not> (truthy (getprop ?r ''type'') \<and> getprop ?r ''type'' \<noteq> JStr ''columns'')"
    using t v'(1) by auto
  have n': "\<not> (getprop ?r ''columns'' \<noteq> JUndefined \<and>
        (\<not> isInteger (getprop ?r ''columns'') \<or> lessThanOne (getprop ?r ''columns'')))"
    using n v'(2) by auto
  have g': "\<not> (truthy (getprop ?r ''gap'') \<and> typeof (getprop ?r ''gap'') \<noteq> ''string'')"
    using g v'(3) by auto
  show ?thesis
    unfolding isValidLayoutConfig_iff [of ?r] using obj t' n' g' v'(4) v'(5) r cols by simp
qed

lemma normalize_valid:
  "isValidLayoutConfig layout \<Longrightarrow>
   normalizeLayoutConfig layout = spread2 DEFAULT_LAYOUT_CONFIG layout"
  by (simp add: normalizeLayoutConfig_def isValidLayoutConfig_iff)

lemma normalize_invalid:
  "\<not> isValidLayoutConfig layout \<Longrightarrow> normalizeLayoutConfig layout = DEFAULT_LAYOUT_CONFIG"
  by (simp add: normalizeLayoutConfig_def)

lemma merged_undefined_iff:
  assumes "k = ''type'' \<or> k = ''columns'' \<or> k = ''gap''"
  shows "getprop (spread2 DEFAULT_LAYOUT_CONFIG layout) k = JUndefined \<longleftrightarrow>
         map_of (own_entries layout) k = Some JUndefined"
  using assms by (auto simp: getprop_merged getprop_DEFAULT split: option.splits)

subsection \<open>normalizeLayoutConfig\<close>

text \<open>
  Claim C9 says that the result of \<open>normalizeLayoutConfig\<close> always has \<open>type\<close>,
  \<open>columns\<close> and \<open>gap\<close> defined. The layout \<open>{columns: undefined}\<close> passes
  \<open>isValidLayoutConfig\<close> (the test on \<open>columns\<close> is skipped for \<open>undefined\<close>), and
  the spread copies the property, \<open>undefined\<close> included, over the default: the result
  is \<open>{type: 'columns', columns: undefined, gap: '16px'}\<close>.
\<close>

theorem normalizeLayoutConfig_undefined_columns:
  "isValidLayoutConfig (JObj [(''columns'', JUndefined)]) \<and>
   getprop (normalizeLayoutConfig (JObj [(''columns'', JUndefined)])) ''columns'' = JUndefined"
proof -
  have v: "isValidLayoutConfig (JObj [(''columns'', JUndefined)])"
    by (simp add: isValidLayoutConfig_def getprop_JObj responsiveKeys_def colProps_def
        badColProp_def)
  have "getprop (spread2 DEFAULT_LAYOUT_CONFIG (JObj [(''columns'', JUndefined)])) ''columns'' =
        JUndefined"
    by (simp add: getprop_merged own_entries_def)
  with v show ?thesis by (simp add: normalize_valid)
qed

text \<open>
  Claim C9, as the code has it. For every input, \<open>undefined\<close> and the values that
  \<open>isValidLayoutConfig\<close> rejects included, the result of \<open>normalizeLayoutConfig\<close>
  satisfies \<open>isValidLayoutConfig\<close>. It is exactly \<open>DEFAULT_LAYOUT_CONFIG\<close> when the input
  is invalid (\<open>undefined\<close> is), and otherwise the input merged over the defaults: each
  property of the result is the input's own property of that name when it has one, and
  the default's otherwise. So \<open>type\<close>, \<open>columns\<close> and \<open>gap\<close> are defined in the result
  except where the valid input itself holds that key with the value \<open>undefined\<close>.
\<close>

theorem normalizeLayoutConfig_merges_defaults:
  "isValidLayoutConfig (normalizeLayoutConfig layout) \<and>
   (if isValidLayoutConfig layout
    then \<forall>k. getprop (normalizeLayoutConfig layout) k =
           (case map_of (own_entries layout) k of
              Some v \<Rightarrow> v
            | None \<Rightarrow> getprop DEFAULT_LAYOUT_CONFIG k)
    else normalizeLayoutConfig layout = DEFAULT_LAYOUT_CONFIG) \<and>
   (\<forall>k \<in> {''type'', ''columns'', ''gap''}.
      getprop (normalizeLayoutConfig layout) k = JUndefined \<longleftrightarrow>
      isValidLayoutConfig layout \<and> map_of (own_entries layout) k = Some JUndefined)"
proof (cases "isValidLayoutConfig layout")
  case True
  then have n: "normalizeLayoutConfig layout = spread2 DEFAULT_LAYOUT_CONFIG layout"
    by (rule normalize_valid)
  have a: "isValidLayoutConfig (normalizeLayoutConfig layout)"
    using True by (simp add: n isValid_merged)
  have b: "\<forall>k. getprop (normalizeLayoutConfig layout) k =
           (case map_of (own_entries layout) k of
              Some v \<Rightarrow> v
            | None \<Rightarrow> getprop DEFAULT_LAYOUT_CONFIG k)"
    by (simp add: n getprop_merged)
  have c: "\<forall>k \<in> {''type'', ''columns'', ''gap''}.
      getprop (normalizeLayoutConfig layout) k = JUndefined \<longleftrightarrow>
      isValidLayoutConfig layout \<and> map_of (own_entries layout) k = Some JUndefined"
    using True merged_undefined_iff [of _ layout] by (simp add: n)
  from a b c True show ?thesis by simp
next
  case False
  then have n: "normalizeLayoutConfig layout = DEFAULT_LAYOUT_CONFIG"
    by (rule normalize_invalid)
  from False show ?thesis by (simp add: n isValid_DEFAULT getprop_DEFAULT)
qed

text \<open>
  The theorem at \<open>{columns: 3}\<close>, a valid layout that is merged, and at \<open>undefined\<close>,
  which gives the defaults.
\<close>

theorem normalizeLayoutConfig_merges_defaults_witness:
  "isValidLayoutConfig (JObj [(''columns'', JNum (Fin 3))]) \<and>
   isValidLayoutConfig (normalizeLayoutConfig (JObj [(''columns'', JNum (Fin 3))])) \<and>
   getprop (normalizeLayoutConfig (JObj [(''columns'', JNum (Fin 3))])) ''columns'' = JNum (Fin 3) \<and>
   getprop (normalizeLayoutConfig (JObj [(''columns'', JNum (Fin 3))])) ''gap'' = JStr ''16px'' \<and>
   getprop (normalizeLayoutConfig (JObj [(''columns'', JNum (Fin 3))])) ''type'' \<noteq> JUndefined \<and>
   normalizeLayoutConfig JUndefined = DEFAULT_LAYOUT_CONFIG"
proof -
  have v: "isValidLayoutConfig (JObj [(''columns'', JNum (Fin 3))])"
    by (simp add: isValidLayoutConfig_def getprop_JObj responsiveKeys_def colProps_def
        badColProp_def)
  have u: "\<not> isValidLayoutConfig JUndefined"
    by (simp add: isValidLayoutConfig_def)
  show ?thesis
    using v u normalizeLayoutConfig_merges_defaults [of "JObj [(''columns'', JNum (Fin 3))]"]
      normalizeLayoutConfig_merges_defaults [of JUndefined]
    by (simp add: own_entries_def getprop_DEFAULT)
qed

subsection \<open>getFormContainerLayout\<close>

text \<open>
  Claim C10. \<open>getFormContainerLayout\<close> returns \<open>null\<close> for an empty list of fields.
  For a list that starts with \<open>field\<close> it returns \<open>field._rootLayout || null\<close>: the
  root layout of the first field when that field has one (an object, by the type of
  \<open>Field\<close>) and \<open>null\<close> when the property is absent; and the result is the same
  whatever fields follow the first.
\<close>

theorem getFormContainerLayout_first_field:
  "getFormContainerLayout [] = JNull \<and>
   getFormContainerLayout (field # rest) =
     (if truthy (f_rootLayout field) then f_rootLayout field else JNull) \<and>
   getFormContainerLayout (field # rest) = getFormContainerLayout (field # others) \<and>
   (f_rootLayout field = JObj kvs \<longrightarrow> getFormContainerLayout (field # rest) = JObj kvs) \<and>
   (f_rootLayout field = JUndefined \<longrightarrow> getFormContainerLayout (field # rest) = JNull)"
  by (simp add: getFormContainerLayout_def getRootLayoutInfo_def)

text \<open>
  The theorem at a form whose first field carries the root layout \<open>{columns: 2}\<close> and
  whose second field carries another one, and at a form whose first field has none.
\<close>

theorem getFormContainerLayout_first_field_witness:
  "getFormContainerLayout
     [Field ''a'' None ''text'' [''string''] False True None None None JUndefined
        (JObj [(''columns'', JNum (Fin 2))]) [],
      Field ''b'' None ''text'' [''string''] False True None None None JUndefined
        (JObj [(''columns'', JNum (Fin 5))]) []]
     = JObj [(''columns'', JNum (Fin 2))] \<and>
   getFormContainerLayout
     [Field ''a'' None ''text'' [''string''] False True None None None JUndefined JUndefined []]
     = JNull"
  using getFormContainerLayout_first_field
      [of "Field ''a'' None ''text'' [''string''] False True None None None JUndefined
             (JObj [(''columns'', JNum (Fin 2))]) []"
          "[Field ''b'' None ''text'' [''string''] False True None None None JUndefined
             (JObj [(''columns'', JNum (Fin 5))]) []]"
          "[]" "[(''columns'', JNum (Fin 2))]"]
    getFormContainerLayout_first_field
      [of "Field ''a'' None ''text'' [''string''] False True None None None JUndefined JUndefined []"
          "[]" "[]" "[]"]
  by simp

section \<open>The core pipeline\<close>

text \<open>
  The files of the core (\<open>src/form.ts\<close>, \<open>src/mutations.ts\<close>, \<open>src/field/schema.ts\<close>
  and \<open>src/validation/\<close>) are described by the specification and by the
  declarations of \<open>dist/index.d.ts\<close>; the definitions of this section follow the
  specification's sections 3 and 4, each with the sentence it follows.
\<close>

subsection \<open>Paths and failures\<close>

text \<open>
  Modelled from the spec: the path of a \<open>ValidationError\<close> (missing:
  \<open>src/validation/\<close>), "an ordered list of string/int segments in schema-tree
  addressing".
\<close>

datatype segment = Key string | Idx nat

text \<open>
  Modelled from the spec: the two failures that the spec names for the rules of a
  form (missing: \<open>src/form.ts\<close>, \<open>src/validation/json-logic.ts\<close>), "unknown operator,
  malformed rule reference"; and what a caller-supplied operator raises, for it is a
  JavaScript function (\<open>(...args: any[]) => any\<close> in \<open>dist/index.d.ts\<close>). A thrown
  failure is the \<open>Inl\<close> of a result.
\<close>

datatype failure = UnknownOperator string | MalformedRuleReference string | Raised jsval

text \<open>
  Running a fallible step over a list, left to right, stopping at the first failure;
  and the same for a chain of conditions and for a fold.
\<close>

fun traverse :: "('a \<Rightarrow> failure + 'b) \<Rightarrow> 'a list \<Rightarrow> failure + 'b list" where
  "traverse f [] = Inr []"
| "traverse f (x # xs) =
     (case f x of
        Inl e \<Rightarrow> Inl e
      | Inr y \<Rightarrow> (case traverse f xs of Inl e \<Rightarrow> Inl e | Inr ys \<Rightarrow> Inr (y # ys)))"

fun chainIf :: "('a \<Rightarrow> failure + jsval) \<Rightarrow> (jsval \<Rightarrow> bool) \<Rightarrow> 'a list \<Rightarrow> failure + jsval" where
  "chainIf ev t [] = Inr JNull"
| "chainIf ev t [r] = ev r"
| "chainIf ev t (c # r # rest) =
     (case ev c of
        Inl e \<Rightarrow> Inl e
      | Inr v \<Rightarrow> if t v then ev r else chainIf ev t rest)"

fun chainAnd :: "('a \<Rightarrow> failure + jsval) \<Rightarrow> (jsval \<Rightarrow> bool) \<Rightarrow> 'a list \<Rightarrow> failure + jsval" where
  "chainAnd ev t [] = Inr JUndefined"
| "chainAnd ev t [r] = ev r"
| "chainAnd ev t (r # r' # rest) =
     (case ev r of
        Inl e \<Rightarrow> Inl e
      | Inr v \<Rightarrow> if t v then chainAnd ev t (r' # rest) else Inr v)"

fun reduceF :: "('b \<Rightarrow> 'a \<Rightarrow> failure + 'b) \<Rightarrow> 'a list \<Rightarrow> 'b \<Rightarrow> failure + 'b" where
  "reduceF f [] acc = Inr acc"
| "reduceF f (x # xs) acc =
     (case f acc x of Inl e \<Rightarrow> Inl e | Inr acc' \<Rightarrow> reduceF f xs acc')"

fun collect :: "(failure + 'a list) list \<Rightarrow> failure + 'a list" where
  "collect [] = Inr []"
| "collect (Inl e # rest) = Inl e"
| "collect (Inr xs # rest) =
     (case collect rest of Inl e \<Rightarrow> Inl e | Inr ys \<Rightarrow> Inr (xs @ ys))"

definition mapR :: "('a \<Rightarrow> 'b) \<Rightarrow> failure + 'a \<Rightarrow> failure + 'b" where
  "mapR f r = (case r of Inl e \<Rightarrow> Inl e | Inr x \<Rightarrow> Inr (f x))"

lemma traverse_cong [fundef_cong]:
  "xs = ys \<Longrightarrow> (\<And>x. x \<in> set ys \<Longrightarrow> f x = g x) \<Longrightarrow> traverse f xs = traverse g ys"
  by (induction ys arbitrary: xs) (auto split: sum.splits)

lemma chainIf_cong [fundef_cong]:
  "rs = rs' \<Longrightarrow> t = t' \<Longrightarrow> (\<And>r. r \<in> set rs' \<Longrightarrow> ev r = ev' r) \<Longrightarrow>
   chainIf ev t rs = chainIf ev' t' rs'"
  by (induction ev t' rs' arbitrary: rs rule: chainIf.induct) (auto split: sum.splits)

lemma chainAnd_cong [fundef_cong]:
  "rs = rs' \<Longrightarrow> t = t' \<Longrightarrow> (\<And>r. r \<in> set rs' \<Longrightarrow> ev r = ev' r) \<Longrightarrow>
   chainAnd ev t rs = chainAnd ev' t' rs'"
  by (induction ev t' rs' arbitrary: rs rule: chainAnd.induct) (auto split: sum.splits)

lemma reduceF_cong [fundef_cong]:
  "xs = ys \<Longrightarrow> a = b \<Longrightarrow> (\<And>acc x. x \<in> set ys \<Longrightarrow> f acc x = g acc x) \<Longrightarrow>
   reduceF f xs a = reduceF g ys b"
  by (induction ys arbitrary: xs a b) (auto split: sum.splits)

lemma size_nth_le: "i < length rs \<Longrightarrow> size (rs ! i) \<le> size_list size rs"
  by (metis nth_mem size_list_estimation' order_refl)

lemma size_prop_le:
  "(a, b) \<in> set props \<Longrightarrow> size b \<le> size_list (size_prod (\<lambda>x. 0) size) props"
  by (induction props) auto

lemma size_enumerate_le: "(a, b) \<in> set (enumerate n xs) \<Longrightarrow> size b \<le> size_list size xs"
  by (auto simp: in_set_enumerate_eq size_nth_le)

subsection \<open>Rule Expression Interpreter\<close>

text \<open>
  Modelled from the spec: \<open>RuleExpression\<close> (missing: the rule DSL of
  \<open>src/validation/json-logic.ts\<close>), "a tagged expression tree (operator name + ordered
  operand list, where an operand may be a literal, a variable-path reference, or a
  nested RuleExpression)". A variable path is the list of its keys.
\<close>

datatype RuleExpression =
    Lit jsval
  | Var "string list"
  | Op string "RuleExpression list"

text \<open>
  Modelled from the spec: the operator table (missing: the operator registry of
  \<open>src/validation/json-logic.ts\<close>), "a mapping of extension operator name \<rightarrow> function"
  beside the built-in operators; "custom operators registered by name take
  precedence resolution only when not shadowing a built-in", so a name is looked up
  among the built-in operators first. An operator returns a value or raises.
\<close>

type_synonym operator = "jsval list \<Rightarrow> failure + jsval"

type_synonym operator_table = "(string \<times> operator) list"

record operators =
  builtinOps :: operator_table
  customOps :: operator_table

definition lookupOp :: "operators \<Rightarrow> string \<Rightarrow> operator option" where
  "lookupOp ops name =
     (case map_of (builtinOps ops) name of
        Some f \<Rightarrow> Some f
      | None \<Rightarrow> map_of (customOps ops) name)"

text \<open>
  Modelled from the spec: variable lookup (missing: \<open>src/validation/json-logic.ts\<close>),
  "a variable reference to a missing path evaluates to undefined/absent rather than
  failing".
\<close>

fun lookupPath :: "string list \<Rightarrow> jsval \<Rightarrow> jsval" where
  "lookupPath [] v = v"
| "lookupPath (k # ks) v =
     (if v = JNull \<or> v = JUndefined then JUndefined else lookupPath ks (getprop v k))"

text \<open>
  Modelled from the spec: the truth value of a rule's result (missing:
  \<open>src/validation/json-logic.ts\<close>), for "boolean RuleExpressions": JavaScript's
  truthiness, with the empty array false as in the rule DSL.
\<close>

fun ruleTruthy :: "jsval \<Rightarrow> bool" where
  "ruleTruthy (JArr xs) = (xs \<noteq> [])"
| "ruleTruthy v = truthy v"

text \<open>
  Modelled from the spec: the array operators \<open>map\<close>, \<open>filter\<close>, \<open>all\<close>, \<open>some\<close> and
  \<open>none\<close> of the operator set (missing: \<open>src/validation/json-logic.ts\<close>), which
  evaluate their second operand once for each element of the first, the element
  being the context.
\<close>

definition iterators :: "string list" where
  "iterators = [''map'', ''filter'', ''all'', ''some'', ''none'']"

fun elements :: "jsval \<Rightarrow> jsval list" where
  "elements (JArr xs) = xs"
| "elements v = []"

definition iterate :: "string \<Rightarrow> jsval list \<Rightarrow> jsval list \<Rightarrow> jsval" where
  "iterate name xs rs =
     (if name = ''map'' then JArr rs
      else if name = ''filter'' then JArr (map fst (filter (\<lambda>(x, r). ruleTruthy r) (zip xs rs)))
      else if name = ''all'' then JBool (xs \<noteq> [] \<and> list_all ruleTruthy rs)
      else if name = ''some'' then JBool (list_ex ruleTruthy rs)
      else JBool (\<not> list_ex ruleTruthy rs))"

text \<open>
  Modelled from the spec: \<open>evaluate(expr, context, customOps)\<close> (missing:
  \<open>src/validation/json-logic.ts\<close>). The conditional (\<open>if\<close>, ternary), \<open>and\<close>, \<open>or\<close>, the
  array operators and \<open>reduce\<close> evaluate their operands as they need them; every other
  operator is applied to the values of its operands, and "calling an unregistered
  custom operator fails with an UnknownOperator condition"; what an operator raises
  is not caught. The functions of the
  built-in operators (comparisons, arithmetic, string and array operations) are the
  table \<open>builtinOps\<close>.
\<close>

function evaluate :: "operators \<Rightarrow> RuleExpression \<Rightarrow> jsval \<Rightarrow> failure + jsval" where
  "evaluate ops (Lit v) ctx = Inr v"
| "evaluate ops (Var p) ctx = Inr (lookupPath p ctx)"
| "evaluate ops (Op name args) ctx =
     (if name = ''if'' \<or> name = ''?:'' then chainIf (\<lambda>r. evaluate ops r ctx) ruleTruthy args
      else if name = ''and'' then chainAnd (\<lambda>r. evaluate ops r ctx) ruleTruthy args
      else if name = ''or'' then chainAnd (\<lambda>r. evaluate ops r ctx) (\<lambda>v. \<not> ruleTruthy v) args
      else if name \<in> set iterators \<and> length args = 2 then
        (case evaluate ops (args ! 0) ctx of
           Inl e \<Rightarrow> Inl e
         | Inr a \<Rightarrow>
             (case traverse (\<lambda>x. evaluate ops (args ! 1) x) (elements a) of
                Inl e \<Rightarrow> Inl e
              | Inr rs \<Rightarrow> Inr (iterate name (elements a) rs)))
      else if name = ''reduce'' \<and> length args = 3 then
        (case evaluate ops (args ! 0) ctx of
           Inl e \<Rightarrow> Inl e
         | Inr a \<Rightarrow>
             (case evaluate ops (args ! 2) ctx of
                Inl e \<Rightarrow> Inl e
              | Inr init \<Rightarrow>
                  reduceF
                    (\<lambda>acc x. evaluate ops (args ! 1)
                       (JObj [(''current'', x), (''accumulator'', acc)]))
                    (elements a) init))
      else
        (case traverse (\<lambda>r. evaluate ops r ctx) args of
           Inl e \<Rightarrow> Inl e
         | Inr vs \<Rightarrow>
             (case lookupOp ops name of
                None \<Rightarrow> Inl (UnknownOperator name)
              | Some f \<Rightarrow> f vs)))"
  by pat_completeness auto
termination
  by (relation "measure (\<lambda>(ops, r, ctx). size r)")
     (auto simp: size_nth_le less_Suc_eq_le size_list_estimation')

text \<open>
  Modelled from the spec: the ordering comparisons and the equalities of the
  built-in operator set (missing: \<open>src/validation/json-logic.ts\<close>), on numbers and
  without coercion; the table the examples below are evaluated with. These
  operators return on every list of values.
\<close>

definition returning :: "(jsval list \<Rightarrow> jsval) \<Rightarrow> operator" where
  "returning f vs = Inr (f vs)"

definition compareNumbers :: "(rat \<Rightarrow> rat \<Rightarrow> bool) \<Rightarrow> jsval list \<Rightarrow> jsval" where
  "compareNumbers rel vs =
     (case vs of
        [JNum (Fin a), JNum (Fin b)] \<Rightarrow> JBool (rel a b)
      | _ \<Rightarrow> JBool False)"

definition standardOps :: operator_table where
  "standardOps =
     [(''>='', returning (compareNumbers (\<lambda>a b. a \<ge> b))),
      (''>'', returning (compareNumbers (\<lambda>a b. a > b))),
      (''<='', returning (compareNumbers (\<lambda>a b. a \<le> b))),
      (''<'', returning (compareNumbers (\<lambda>a b. a < b))),
      (''==='', returning (\<lambda>vs. case vs of [a, b] \<Rightarrow> JBool (a = b) | _ \<Rightarrow> JBool False)),
      (''!=='', returning (\<lambda>vs. case vs of [a, b] \<Rightarrow> JBool (a \<noteq> b) | _ \<Rightarrow> JBool False)),
      (''!'', returning (\<lambda>vs. case vs of [a] \<Rightarrow> JBool (\<not> ruleTruthy a) | _ \<Rightarrow> JBool True)),
      (''!!'', returning (\<lambda>vs. case vs of [a] \<Rightarrow> JBool (ruleTruthy a) | _ \<Rightarrow> JBool False))]"

subsection \<open>Schemas\<close>

text \<open>
  Modelled from the spec: the keywords of a \<open>SchemaNode\<close> that hold no sub-schema
  (missing: the schema handling of \<open>src/validation/\<close> and \<open>src/field/schema.ts\<close>;
  \<open>src/types.ts\<close> declares the extension keywords): the declared \<open>type\<close> (one name or
  a union, empty when absent), \<open>title\<close>, \<open>const\<close>, \<open>enum\<close>, \<open>format\<close>, \<open>required\<close>, the
  bounds of numbers and of string lengths, the layout hints \<open>x-jsf-layout\<close>, the
  reference list \<open>x-jsf-logic-validations\<close>, the named validations of \<open>x-jsf-logic\<close>
  (rule and error message), and the presentation hints \<open>x-jsf-presentation\<close>: its
  \<open>inputType\<close>, its \<open>asyncOptions\<close>, and in \<open>kw_presentation\<close> every other property it
  holds, in insertion order (\<open>JsfPresentation\<close> of \<open>src/types.ts\<close> is open:
  \<open>[key: string]: unknown\<close>). Patterns, formats as
  checks, \<open>multipleOf\<close>, \<open>additionalProperties\<close>, \<open>patternProperties\<close>, \<open>prefixItems\<close>,
  \<open>contains\<close>, the item counts and computed values are not part of the model.
\<close>

record node_keywords =
  kw_type :: "string list"
  kw_title :: "string option"
  kw_const :: "jsval option"
  kw_enum :: "jsval list option"
  kw_format :: "string option"
  kw_required :: "string list option"
  kw_minimum :: "rat option"
  kw_maximum :: "rat option"
  kw_minLength :: "nat option"
  kw_maxLength :: "nat option"
  kw_inputType :: "string option"
  kw_asyncOptions :: "AsyncOptionsConfig option"
  kw_layout :: "jsval option"
  kw_validations :: "string list option"
  kw_rules :: "(string \<times> RuleExpression \<times> string) list option"
  kw_presentation :: "(string \<times> jsval) list"

text \<open>
  Modelled from the spec: \<open>SchemaNode\<close> (missing: as above), "a recursive structure
  mirroring a JSON Schema node": a boolean schema, or a node with its keywords, its
  \<open>properties\<close> in insertion order, \<open>items\<close>, the composition lists \<open>allOf\<close>, \<open>anyOf\<close>,
  \<open>oneOf\<close> and \<open>not\<close>, the conditional triple \<open>if\<close>/\<open>then\<close>/\<open>else\<close>, and the rule-keyed
  conditional triple of the rule definitions, whose condition is a RuleExpression.
\<close>

datatype schema =
    SBool bool
  | SNode
      (s_keywords: node_keywords)
      (s_properties: "(string \<times> schema) list")
      (s_items: "schema option")
      (s_allOf: "schema list option")
      (s_anyOf: "schema list option")
      (s_oneOf: "schema list option")
      (s_not: "schema option")
      (s_if: "schema option")
      (s_then: "schema option")
      (s_else: "schema option")
      (s_ruleIf: "RuleExpression option")
      (s_ruleThen: "schema option")
      (s_ruleElse: "schema option")

definition emptyKeywords :: node_keywords where
  "emptyKeywords =
     \<lparr>kw_type = [], kw_title = None, kw_const = None, kw_enum = None, kw_format = None,
      kw_required = None, kw_minimum = None, kw_maximum = None, kw_minLength = None,
      kw_maxLength = None, kw_inputType = None, kw_asyncOptions = None, kw_layout = None,
      kw_validations = None, kw_rules = None, kw_presentation = []\<rparr>"

text \<open>A node with keywords only, and the same with properties.\<close>

definition leaf :: "node_keywords \<Rightarrow> schema" where
  "leaf kw = SNode kw [] None None None None None None None None None None None"

definition object :: "node_keywords \<Rightarrow> (string \<times> schema) list \<Rightarrow> schema" where
  "object kw props = SNode kw props None None None None None None None None None None None"

subsection \<open>Schema Validator\<close>

text \<open>
  Modelled from the spec: \<open>ValidationError\<close> (missing: \<open>src/validation/\<close>),
  "{ keyword, path (ordered list of string/int segments in schema-tree addressing),
  message, params }".
\<close>

record ValidationError =
  ve_keyword :: string
  ve_path :: "segment list"
  ve_message :: string
  ve_params :: "(string \<times> jsval) list"

definition mkError :: "string \<Rightarrow> segment list \<Rightarrow> string \<Rightarrow> ValidationError" where
  "mkError keyword path message =
     \<lparr>ve_keyword = keyword, ve_path = path, ve_message = message, ve_params = []\<rparr>"

text \<open>
  Modelled from the spec: what a validation reads beside the schema and the value
  (missing: \<open>src/form.ts\<close>): the operators, the named validations of the rule
  definitions, "the whole form's value context", and the two \<open>legacyOptions\<close>.
\<close>

record validation_context =
  vc_operators :: operators
  vc_rules :: "(string \<times> RuleExpression \<times> string) list"
  vc_formValues :: jsval
  vc_treatNullAsUndefined :: bool
  vc_allowForbiddenValues :: bool

text \<open>
  Modelled from the spec: type dispatch (missing: \<open>src/validation/schema.ts\<close>),
  "dispatch is by declared type (or, if type is an array, union dispatch)" and
  "numeric/string coercion is never performed".
\<close>

fun jsonType :: "jsval \<Rightarrow> string" where
  "jsonType JUndefined = ''undefined''"
| "jsonType JNull = ''null''"
| "jsonType (JBool b) = ''boolean''"
| "jsonType (JNum n) = ''number''"
| "jsonType (JStr s) = ''string''"
| "jsonType (JFun f) = ''function''"
| "jsonType (JArr xs) = ''array''"
| "jsonType (JObj kvs) = ''object''"

definition matchesType :: "string \<Rightarrow> jsval \<Rightarrow> bool" where
  "matchesType t v = (t = jsonType v \<or> (t = ''integer'' \<and> isInteger v))"

text \<open>
  Modelled from the spec: presence of a property value (missing:
  \<open>src/validation/object.ts\<close>); with \<open>treatNullAsUndefined\<close> a \<open>null\<close> counts as absent.
\<close>

definition present :: "validation_context \<Rightarrow> jsval \<Rightarrow> bool" where
  "present vc x = (x \<noteq> JUndefined \<and> \<not> (vc_treatNullAsUndefined vc \<and> x = JNull))"

text \<open>
  Modelled from the spec: the keyword checks of the scalar families (missing:
  \<open>src/validation/const.ts\<close>, \<open>enum.ts\<close>, \<open>string.ts\<close>, \<open>number.ts\<close>, \<open>object.ts\<close>): \<open>const\<close> and
  \<open>enum\<close> by deep equality, string lengths, inclusive number bounds, and
  "required-key presence", the error of a missing key standing at that key.
\<close>

definition checkConst :: "node_keywords \<Rightarrow> jsval \<Rightarrow> segment list \<Rightarrow> ValidationError list" where
  "checkConst kw v path =
     (case kw_const kw of
        None \<Rightarrow> []
      | Some c \<Rightarrow> if v = c then [] else [mkError ''const'' path ''The only accepted value is the constant''])"

definition checkEnum :: "node_keywords \<Rightarrow> jsval \<Rightarrow> segment list \<Rightarrow> ValidationError list" where
  "checkEnum kw v path =
     (case kw_enum kw of
        None \<Rightarrow> []
      | Some vs \<Rightarrow> if v \<in> set vs then [] else [mkError ''enum'' path ''The option is not valid''])"

definition checkString :: "node_keywords \<Rightarrow> jsval \<Rightarrow> segment list \<Rightarrow> ValidationError list" where
  "checkString kw v path =
     (case v of
        JStr s \<Rightarrow>
          (case kw_minLength kw of
             None \<Rightarrow> []
           | Some n \<Rightarrow> if length s < n then [mkError ''minLength'' path ''Too short''] else []) @
          (case kw_maxLength kw of
             None \<Rightarrow> []
           | Some n \<Rightarrow> if n < length s then [mkError ''maxLength'' path ''Too long''] else [])
      | _ \<Rightarrow> [])"

definition checkNumber :: "node_keywords \<Rightarrow> jsval \<Rightarrow> segment list \<Rightarrow> ValidationError list" where
  "checkNumber kw v path =
     (case v of
        JNum (Fin r) \<Rightarrow>
          (case kw_minimum kw of
             None \<Rightarrow> []
           | Some m \<Rightarrow> if r < m then [mkError ''minimum'' path ''Too small''] else []) @
          (case kw_maximum kw of
             None \<Rightarrow> []
           | Some m \<Rightarrow> if m < r then [mkError ''maximum'' path ''Too large''] else [])
      | _ \<Rightarrow> [])"

definition checkRequired ::
  "validation_context \<Rightarrow> node_keywords \<Rightarrow> jsval \<Rightarrow> segment list \<Rightarrow> ValidationError list" where
  "checkRequired vc kw v path =
     (case kw_required kw of
        None \<Rightarrow> []
      | Some names \<Rightarrow>
          if jsonType v = ''object'' then
            concat (map (\<lambda>name.
              if present vc (getprop v name) then []
              else [mkError ''required'' (path @ [Key ''properties'', Key name]) ''Required field''])
              names)
          else [])"

text \<open>
  Modelled from the spec: the verdicts of the composition keywords (missing:
  \<open>src/validation/composition.ts\<close>), from the error lists of the branches. "anyOf:
  errors reported only if all branches fail, and the reported error set is the one
  from the branch with fewest failing keywords"; "oneOf: must match exactly one
  branch, reports a single oneOf error if zero or more than one match"; "not:
  reports an error if the sub-schema does validate".
\<close>

fun fewest :: "'a list list \<Rightarrow> 'a list" where
  "fewest [] = []"
| "fewest [errs] = errs"
| "fewest (errs # rest) = (if length errs \<le> length (fewest rest) then errs else fewest rest)"

definition anyOfErrors :: "ValidationError list list \<Rightarrow> ValidationError list" where
  "anyOfErrors results = (if list_ex (\<lambda>errs. errs = []) results then [] else fewest results)"

definition oneOfErrors :: "segment list \<Rightarrow> ValidationError list list \<Rightarrow> ValidationError list" where
  "oneOfErrors path results =
     (if length (filter (\<lambda>errs. errs = []) results) = 1 then []
      else [mkError ''oneOf'' path ''The option is not valid''])"

definition notErrors :: "segment list \<Rightarrow> ValidationError list \<Rightarrow> ValidationError list" where
  "notErrors path errs =
     (if errs = [] then [mkError ''not'' path ''The value must not be valid''] else [])"

text \<open>
  Modelled from the spec: rule-referenced validations (missing:
  \<open>src/validation/json-logic.ts\<close>), "named validations invoked via a reference list on
  a node are evaluated as boolean RuleExpressions against the whole form's value
  context (not just the local sub-value)". A reference to a name that the rule
  definitions do not have is a malformed rule reference.
\<close>

definition validateRule ::
  "validation_context \<Rightarrow> segment list \<Rightarrow> string \<Rightarrow> failure + ValidationError list" where
  "validateRule vc path ref =
     (case map_of (vc_rules vc) ref of
        None \<Rightarrow> Inl (MalformedRuleReference ref)
      | Some (rule, message) \<Rightarrow>
          (case evaluate (vc_operators vc) rule (vc_formValues vc) of
             Inl e \<Rightarrow> Inl e
           | Inr r \<Rightarrow> Inr (if ruleTruthy r then [] else [mkError ''json-logic'' path message])))"

definition validateRules ::
  "validation_context \<Rightarrow> string list option \<Rightarrow> segment list \<Rightarrow> failure + ValidationError list" where
  "validateRules vc refs path =
     (case refs of
        None \<Rightarrow> Inr []
      | Some names \<Rightarrow> mapR concat (traverse (validateRule vc path) names))"

text \<open>
  Modelled from the spec: \<open>validate(schema, value, path)\<close> (missing:
  \<open>src/validation/schema.ts\<close>, \<open>object.ts\<close>, \<open>array.ts\<close>, \<open>composition.ts\<close>). A \<open>false\<close> schema
  "always fails unless a legacy compatibility mode is active"; "type mismatches fail
  immediately without attempting a family-specific check"; otherwise "all
  keyword-level checks continue past a failing keyword at the same node", in the
  order of the list below. A property is validated when the value has it, an item
  schema on every element, \<open>allOf\<close> gives "the union of all sub-errors". The paths are
  the ones of the spec's examples: \<open>properties\<close> and the name for a property, \<open>items\<close>
  and the index for an element, the composition keyword and the index for a branch.
\<close>

function validate ::
  "validation_context \<Rightarrow> schema \<Rightarrow> jsval \<Rightarrow> segment list \<Rightarrow> failure + ValidationError list" where
  "validate vc (SBool b) v path =
     Inr (if b \<or> vc_allowForbiddenValues vc then []
          else [mkError ''forbidden'' path ''Not allowed''])"
| "validate vc (SNode kw props items allOf anyOf oneOf nt i t e ri rt re) v path =
     (if kw_type kw \<noteq> [] \<and> \<not> list_ex (\<lambda>ty. matchesType ty v) (kw_type kw)
      then Inr [mkError ''type'' path ''Wrong type'']
      else collect
        [Inr (checkConst kw v path),
         Inr (checkEnum kw v path),
         Inr (checkString kw v path),
         Inr (checkNumber kw v path),
         Inr (checkRequired vc kw v path),
         mapR concat (traverse
           (\<lambda>(name, s).
              if jsonType v = ''object'' \<and> present vc (getprop v name)
              then validate vc s (getprop v name) (path @ [Key ''properties'', Key name])
              else Inr [])
           props),
         (case items of
            None \<Rightarrow> Inr []
          | Some s \<Rightarrow> mapR concat (traverse
              (\<lambda>(n, x). validate vc s x (path @ [Key ''items'', Idx n]))
              (enumerate 0 (elements v)))),
         (case allOf of
            None \<Rightarrow> Inr []
          | Some bs \<Rightarrow> mapR concat (traverse
              (\<lambda>(n, s). validate vc s v (path @ [Key ''allOf'', Idx n])) (enumerate 0 bs))),
         (case anyOf of
            None \<Rightarrow> Inr []
          | Some bs \<Rightarrow> mapR anyOfErrors (traverse
              (\<lambda>(n, s). validate vc s v (path @ [Key ''anyOf'', Idx n])) (enumerate 0 bs))),
         (case oneOf of
            None \<Rightarrow> Inr []
          | Some bs \<Rightarrow> mapR (oneOfErrors path) (traverse
              (\<lambda>(n, s). validate vc s v (path @ [Key ''oneOf'', Idx n])) (enumerate 0 bs))),
         (case nt of
            None \<Rightarrow> Inr []
          | Some s \<Rightarrow> mapR (notErrors path) (validate vc s v (path @ [Key ''not'']))),
         validateRules vc (kw_validations kw) path])"
  by pat_completeness auto
termination
proof (relation "measure (\<lambda>(vc, s, v, path). size s)", goal_cases)
  case 1
  show ?case by simp
next
  case 2
  then show ?case by (auto simp: less_Suc_eq_le dest!: size_prop_le)
next
  case 3
  then show ?case by simp
next
  case 4
  then show ?case by (auto simp: less_Suc_eq_le dest!: size_enumerate_le)
next
  case 5
  then show ?case by (auto simp: less_Suc_eq_le dest!: size_enumerate_le)
next
  case 6
  then show ?case by (auto simp: less_Suc_eq_le dest!: size_enumerate_le)
next
  case 7
  then show ?case by simp
qed

subsection \<open>Error Path Reconciler\<close>

text \<open>
  Modelled from the spec: the rewriting of one error path (missing:
  \<open>transformErrorPath\<close> of \<open>src/form.ts\<close>). "Drop any segment equal to a composition
  keyword (allOf, anyOf, oneOf) or conditional keyword (then, else)"; "drop segments
  literally named items (array-items marker) while preserving the following numeric
  index; leave properties markers and property-name/index segments intact". The
  development notes of the project (section Error Handling) list the same three
  removals and no other. The segments are taken one after the other, and a segment goes for its name
  alone: the path holds names, not the kinds of its segments.
\<close>

definition compositionKeywords :: "string list" where
  "compositionKeywords = [''allOf'', ''anyOf'', ''oneOf'']"

definition conditionalKeywords :: "string list" where
  "conditionalKeywords = [''then'', ''else'']"

fun reconcilePath :: "segment list \<Rightarrow> segment list" where
  "reconcilePath [] = []"
| "reconcilePath (Idx i # rest) = Idx i # reconcilePath rest"
| "reconcilePath (Key k # rest) =
     (if k \<in> set compositionKeywords \<or> k \<in> set conditionalKeywords \<or> k = ''items''
      then reconcilePath rest
      else Key k # reconcilePath rest)"

text \<open>
  Modelled from the spec: \<open>FormErrors\<close> and \<open>reconcile(errors)\<close> (missing:
  \<open>src/form.ts\<close>). The nested mapping from field names and indices to messages is held
  as the list of its leaves, each with its path in the field tree; "when multiple
  errors address the same leaf, only the first applies".
\<close>

type_synonym FormErrors = "(segment list \<times> string) list"

definition reconcile :: "ValidationError list \<Rightarrow> FormErrors" where
  "reconcile errors = firsts [] (map (\<lambda>e. (reconcilePath (ve_path e), ve_message e)) errors)"

subsection \<open>Optional keywords\<close>

text \<open>The schemas, or the list, that an optional keyword holds.\<close>

fun optional :: "'a option \<Rightarrow> 'a list" where
  "optional None = []"
| "optional (Some x) = [x]"

fun optionalList :: "'a list option \<Rightarrow> 'a list" where
  "optionalList None = []"
| "optionalList (Some xs) = xs"

lemma size_optional: "c \<in> set (optional x) \<Longrightarrow> size c < Suc (size_option size x)"
  by (cases x) auto

lemma size_optionalList:
  "c \<in> set (optionalList x) \<Longrightarrow> size c < Suc (size_option (size_list size) x)"
  by (cases x) (auto simp: less_Suc_eq_le intro: le_SucI size_list_estimation')

subsection \<open>Field Tree Builder\<close>

text \<open>
  Modelled from the spec: the label of an option that has no title (missing:
  \<open>src/field/schema.ts\<close>), "falling back to the constant's string form". Strings,
  booleans, \<open>null\<close> and integers are written out; the text of any other constant is
  left empty.
\<close>

fun signedDigits :: "int \<Rightarrow> string" where
  "signedDigits n = (if n < 0 then CHR ''-'' # index_key (nat (- n)) else index_key (nat n))"

fun textOf :: "jsval \<Rightarrow> string" where
  "textOf (JStr s) = s"
| "textOf (JBool b) = (if b then ''true'' else ''false'')"
| "textOf JNull = ''null''"
| "textOf JUndefined = ''undefined''"
| "textOf (JNum (Fin r)) = (if of_int \<lfloor>r\<rfloor> = r then signedDigits \<lfloor>r\<rfloor> else [])"
| "textOf v = []"

text \<open>
  Modelled from the spec: option extraction (missing: \<open>src/field/schema.ts\<close>).
  "Options are extracted from enum, or from oneOf/anyOf members that are
  constant-valued, each producing a label (from a title-like field, falling back to
  the constant's string form) and a value."
\<close>

definition fieldOption :: "string \<Rightarrow> jsval \<Rightarrow> jsval" where
  "fieldOption label v = JObj [(''label'', JStr label), (''value'', v)]"

fun constantMember :: "schema \<Rightarrow> jsval list" where
  "constantMember (SBool b) = []"
| "constantMember (SNode kw ps it ao an oo nt i t e ri rt re) =
     (case kw_const kw of
        None \<Rightarrow> []
      | Some c \<Rightarrow> [fieldOption (case kw_title kw of Some l \<Rightarrow> l | None \<Rightarrow> textOf c) c])"

definition extractOptions ::
  "node_keywords \<Rightarrow> schema list option \<Rightarrow> schema list option \<Rightarrow> jsval list option" where
  "extractOptions kw oneOf anyOf =
     (case kw_enum kw of
        Some vs \<Rightarrow> Some (map (\<lambda>v. fieldOption (textOf v) v) vs)
      | None \<Rightarrow>
          (case oneOf of
             Some bs \<Rightarrow> Some (concat (map constantMember bs))
           | None \<Rightarrow>
               (case anyOf of
                  Some bs \<Rightarrow> Some (concat (map constantMember bs))
                | None \<Rightarrow> None)))"

text \<open>
  Modelled from the spec: the classification of a node (missing:
  \<open>src/field/schema.ts\<close>): the explicit \<open>inputType\<close> when there is one, and otherwise
  "array-of-object \<rightarrow> group type; object \<rightarrow> fieldset type; boolean \<rightarrow> checkbox type;
  numeric \<rightarrow> number type; string with enumerated format \<rightarrow> corresponding specialized
  type (date, email, file-via-special-format); string with oneOf of constants \<rightarrow>
  radio-like selection type; string with enum or non-object array \<rightarrow> select-like type;
  else \<rightarrow> plain text type".
\<close>

fun isObjectSchema :: "schema \<Rightarrow> bool" where
  "isObjectSchema (SBool b) = False"
| "isObjectSchema (SNode kw ps it ao an oo nt i t e ri rt re) = (''object'' \<in> set (kw_type kw))"

fun isConstant :: "schema \<Rightarrow> bool" where
  "isConstant (SBool b) = False"
| "isConstant (SNode kw ps it ao an oo nt i t e ri rt re) = (kw_const kw \<noteq> None)"

definition inferInputType ::
  "node_keywords \<Rightarrow> schema option \<Rightarrow> schema list option \<Rightarrow> string" where
  "inferInputType kw items oneOf =
     (case kw_inputType kw of
        Some t \<Rightarrow> t
      | None \<Rightarrow>
          if ''array'' \<in> set (kw_type kw) \<and> list_ex isObjectSchema (optional items)
            then ''group-array''
          else if ''object'' \<in> set (kw_type kw) then ''fieldset''
          else if ''boolean'' \<in> set (kw_type kw) then ''checkbox''
          else if ''number'' \<in> set (kw_type kw) \<or> ''integer'' \<in> set (kw_type kw) then ''number''
          else if ''string'' \<in> set (kw_type kw) \<and> kw_format kw = Some ''date'' then ''date''
          else if ''string'' \<in> set (kw_type kw) \<and> kw_format kw = Some ''email'' then ''email''
          else if ''string'' \<in> set (kw_type kw) \<and> kw_format kw = Some ''data-url'' then ''file''
          else if ''string'' \<in> set (kw_type kw) \<and> oneOf \<noteq> None \<and>
                  list_all isConstant (optionalList oneOf) then ''radio''
          else if (''string'' \<in> set (kw_type kw) \<and> kw_enum kw \<noteq> None) \<or>
                  ''array'' \<in> set (kw_type kw) then ''select''
          else ''text'')"

text \<open>The required names and the properties of an \<open>items\<close> schema of type object.\<close>

fun itemProperties :: "schema option \<Rightarrow> (string list \<times> (string \<times> schema) list) option" where
  "itemProperties (Some (SNode kw ps it ao an oo nt i t e ri rt re)) =
     (if ''object'' \<in> set (kw_type kw) then Some (optionalList (kw_required kw), ps) else None)"
| "itemProperties other = None"

lemma size_itemProperties:
  "itemProperties it = Some (req, ps) \<Longrightarrow> (name, c) \<in> set ps \<Longrightarrow>
   size c < size_option size it"
  by (cases it rule: itemProperties.cases)
     (auto simp: less_Suc_eq_le split: if_splits dest!: size_prop_le)

text \<open>
  Modelled from the spec: the spread of the presentation hints (missing:
  \<open>buildFieldSchema\<close> of \<open>src/field/schema.ts\<close>). The builder "carries through
  presentation, layout, and async-option configuration verbatim"; \<open>src/field/type.ts\<close>
  has the field "allow for all x-jsf-presentation properties to be splatted", and
  \<open>docs/ASYNC_SELECT.md\<close> says of \<open>x-jsf-presentation\<close>: "All properties are spread to
  the field level". A presentation property \<open>options\<close> that holds an array is the
  \<open>options\<close> of the field; the other properties are the open part of the field
  (\<open>inputType\<close> and \<open>asyncOptions\<close> are keywords of their own and no part of it). The
  spread is the builder's last write. Of the presentation properties that are named
  as a slot of the record, only \<open>options\<close> is followed.
\<close>

fun optionsArray :: "jsval \<Rightarrow> jsval list option" where
  "optionsArray (JArr xs) = Some xs"
| "optionsArray v = None"

definition presentationOptions :: "node_keywords \<Rightarrow> jsval list option" where
  "presentationOptions kw =
     (case map_of (kw_presentation kw) ''options'' of
        Some v \<Rightarrow> optionsArray v
      | None \<Rightarrow> None)"

definition presentationExtra :: "node_keywords \<Rightarrow> (string \<times> jsval) list" where
  "presentationExtra kw =
     filter (\<lambda>(k, v). k \<notin> {''inputType'', ''asyncOptions''} \<and>
                       (k \<noteq> ''options'' \<or> optionsArray v = None))
       (firsts [] (kw_presentation kw))"

text \<open>
  Modelled from the spec: the field of one node (missing: \<open>buildFieldSchema\<close> of
  \<open>src/field/schema.ts\<close>); the test \<open>should not add static options when asyncOptions is
  present\<close> and \<open>docs/ASYNC_SELECT.md\<close> say the same of the extracted options. "If an
  async-options configuration block is present, option extraction is skipped
  entirely and the configuration is carried onto the field verbatim; the loader
  function itself, if one is supplied by the caller keyed by identity, is attached".
  A field is required when its parent lists its name, it is visible unless its schema
  is \<open>false\<close>, and an object and an array of objects have the fields of their
  properties. The layout hints are carried to \<open>layout\<close>, the presentation hints are
  spread as above. The order list is not part of the model.
\<close>

function buildField ::
  "(string \<times> nat) list \<Rightarrow> string list \<Rightarrow> string \<Rightarrow> schema \<Rightarrow> Field" where
  "buildField loaders req name (SBool b) =
     Field name None ''text'' [] (name \<in> set req) b None None None JUndefined JUndefined []"
| "buildField loaders req name (SNode kw ps it ao an oo nt i t e ri rt re) =
     Field name (kw_title kw) (inferInputType kw it oo) (kw_type kw) (name \<in> set req) True
       (case presentationOptions kw of
          Some spread \<Rightarrow> Some spread
        | None \<Rightarrow>
            (case kw_asyncOptions kw of
               Some config \<Rightarrow> None
             | None \<Rightarrow> extractOptions kw oo an))
       (case kw_asyncOptions kw of
          Some config \<Rightarrow> Some (FieldAsyncOptions config (map_of loaders (ao_id config)))
        | None \<Rightarrow> None)
       (if ''object'' \<in> set (kw_type kw) then
          Some (map (\<lambda>(n, c). buildField loaders (optionalList (kw_required kw)) n c) ps)
        else
          (case itemProperties it of
             Some (req', ps') \<Rightarrow>
               if ''array'' \<in> set (kw_type kw)
               then Some (map (\<lambda>(n, c). buildField loaders req' n c) ps') else None
           | None \<Rightarrow> None))
       (case kw_layout kw of Some l \<Rightarrow> l | None \<Rightarrow> JUndefined)
       JUndefined (presentationExtra kw)"
  by pat_completeness auto
termination
proof (relation "measure (\<lambda>(loaders, req, name, s). size s)", goal_cases)
  case 1
  show ?case by simp
next
  case 2
  then show ?case by (auto simp: less_Suc_eq_le dest!: size_prop_le)
next
  case 3
  then show ?case by (auto dest!: size_itemProperties)
qed

text \<open>
  Modelled from the spec: \<open>build(schema)\<close> (missing: \<open>src/field/schema.ts\<close>), the list
  of fields "for the root object", in "schema declaration order".
\<close>

fun build :: "(string \<times> nat) list \<Rightarrow> schema \<Rightarrow> Field list" where
  "build loaders (SBool b) = []"
| "build loaders (SNode kw ps it ao an oo nt i t e ri rt re) =
     map (\<lambda>(n, c). buildField loaders (optionalList (kw_required kw)) n c) ps"

text \<open>A field and all the fields below it.\<close>

function allFields :: "Field \<Rightarrow> Field list" where
  "allFields f = f # concat (map allFields (optionalList (f_fields f)))"
  by pat_completeness auto
termination
proof (relation "measure size", goal_cases)
  case 1
  show ?case by simp
next
  case (2 f x)
  then show ?case by (cases f) (auto simp: less_Suc_eq_le dest!: size_optionalList)
qed

declare allFields.simps [simp del]

subsection \<open>Pipeline Orchestrator\<close>

text \<open>
  The options of \<open>createHeadlessForm\<close>, as \<open>dist/index.d.ts\<close> declares them
  (\<open>LegacyOptions\<close>, \<open>CreateHeadlessFormOptions\<close>); an absent flag is \<open>False\<close>, absent
  initial values are \<open>undefined\<close>, and a loader is known by its identity.
\<close>

record LegacyOptions =
  treatNullAsUndefined :: bool
  allowForbiddenValues :: bool

record CreateHeadlessFormOptions =
  initialValues :: jsval
  legacyOptions :: LegacyOptions
  strictInputType :: bool
  customJsonLogicOps :: operator_table
  asyncLoaders :: "(string \<times> nat) list"

text \<open>
  Modelled from the spec: the context in which the orchestrator has the values of a
  form validated (missing: \<open>createHeadlessForm\<close> and \<open>handleValidation\<close> of
  \<open>src/form.ts\<close>). The named validations are the ones of the root's rule definitions,
  the custom operators are \<open>customJsonLogicOps\<close>, the value context of the rules is the
  values of the whole form, and the two legacy options go to the validator. The
  built-in operators are the table \<open>builtin\<close>.
\<close>

fun rulesOf :: "schema \<Rightarrow> (string \<times> RuleExpression \<times> string) list" where
  "rulesOf (SBool b) = []"
| "rulesOf (SNode kw ps it ao an oo nt i t e ri rt re) = optionalList (kw_rules kw)"

definition contextOf ::
  "operator_table \<Rightarrow> CreateHeadlessFormOptions \<Rightarrow> schema \<Rightarrow> jsval \<Rightarrow> validation_context" where
  "contextOf builtin options schema values =
     \<lparr>vc_operators = \<lparr>builtinOps = builtin, customOps = customJsonLogicOps options\<rparr>,
      vc_rules = rulesOf schema,
      vc_formValues = values,
      vc_treatNullAsUndefined = treatNullAsUndefined (legacyOptions options),
      vc_allowForbiddenValues = allowForbiddenValues (legacyOptions options)\<rparr>"

definition defaultOptions :: CreateHeadlessFormOptions where
  "defaultOptions =
     \<lparr>initialValues = JUndefined,
      legacyOptions = \<lparr>treatNullAsUndefined = False, allowForbiddenValues = False\<rparr>,
      strictInputType = False, customJsonLogicOps = [], asyncLoaders = []\<rparr>"

section \<open>Properties of the core pipeline\<close>

subsection \<open>Error paths\<close>

text \<open>The names that the reconciler drops.\<close>

definition droppedNames :: "string list" where
  "droppedNames = compositionKeywords @ conditionalKeywords @ [''items'']"

lemma reconcilePath_filter:
  "reconcilePath p = filter (\<lambda>s. s \<notin> Key ` set droppedNames) p"
  by (induction p rule: reconcilePath.induct) (auto simp: droppedNames_def)



subsection \<open>Composition: oneOf\<close>

text \<open>The schemas \<open>{oneOf: bs}\<close> and \<open>{const: c}\<close> of the spec's example.\<close>

definition oneOfSchema :: "schema list \<Rightarrow> schema" where
  "oneOfSchema bs = SNode emptyKeywords [] None None None (Some bs) None None None None None None None"

definition constSchema :: "jsval \<Rightarrow> schema" where
  "constSchema c = leaf (emptyKeywords\<lparr>kw_const := Some c\<rparr>)"

lemma traverse_Inr:
  "traverse f xs = Inr ys \<Longrightarrow> length ys = length xs \<and> (\<forall>i < length xs. f (xs ! i) = Inr (ys ! i))"
proof (induction xs arbitrary: ys)
  case Nil
  then show ?case by simp
next
  case (Cons x xs)
  from Cons.prems obtain y ys' where y: "f x = Inr y" and ys': "traverse f xs = Inr ys'"
    and ys: "ys = y # ys'"
    by (auto split: sum.splits)
  from Cons.IH [OF ys'] y ys show ?case by (auto simp: nth_Cons split: nat.splits)
qed

lemma traverse_total:
  "(\<And>x. x \<in> set xs \<Longrightarrow> \<exists>y. f x = Inr y) \<Longrightarrow> \<exists>ys. traverse f xs = Inr ys"
proof (induction xs)
  case Nil
  show ?case by simp
next
  case (Cons x xs)
  from Cons.prems [of x] obtain y where "f x = Inr y" by auto
  moreover from Cons.IH Cons.prems obtain ys where "traverse f xs = Inr ys" by auto
  ultimately show ?case by simp
qed

lemma traverse_failure:
  "traverse f xs = Inl e \<Longrightarrow> \<exists>x \<in> set xs. f x = Inl e"
  by (induction xs) (auto split: sum.splits)

lemma count_by_index:
  "length ys = n \<Longrightarrow> length (filter P ys) = length (filter (\<lambda>i. P (ys ! i)) [0..<n])"
  by (auto simp: length_filter_conv_card intro!: arg_cong [where f = card])

lemma validate_empty_checks:
  "checkConst emptyKeywords v path = []" "checkEnum emptyKeywords v path = []"
  "checkString emptyKeywords v path = []" "checkNumber emptyKeywords v path = []"
  "checkRequired vc emptyKeywords v path = []"
  "validateRules vc (kw_validations emptyKeywords) path = Inr []"
  "kw_type emptyKeywords = []"
  by (simp_all add: emptyKeywords_def checkConst_def checkEnum_def checkString_def checkNumber_def
      checkRequired_def validateRules_def split: jsval.splits jsnum.splits)

lemma validate_oneOfSchema:
  "validate vc (oneOfSchema bs) v path =
     mapR (oneOfErrors path)
       (traverse (\<lambda>(n, s). validate vc s v (path @ [Key ''oneOf'', Idx n])) (enumerate 0 bs))"
  by (simp add: oneOfSchema_def validate_empty_checks mapR_def split: sum.splits)

lemma validate_constSchema:
  "validate vc (constSchema c) v path =
     Inr (if v = c then [] else [mkError ''const'' path ''The only accepted value is the constant''])"
  by (simp add: constSchema_def leaf_def emptyKeywords_def checkConst_def checkEnum_def
      checkString_def checkNumber_def checkRequired_def validateRules_def mapR_def
      split: jsval.splits jsnum.splits)

text \<open>
  Claim C6. Against \<open>oneOf: [{const: "a"}, {const: "b"}]\<close> the value \<open>"a"\<close> has no
  error and the value \<open>"c"\<close> has exactly one error, of keyword \<open>oneOf\<close>. In general,
  where every branch of a \<open>oneOf\<close> node returns a verdict, the node has no error when
  the value matches exactly one branch, and one single \<open>oneOf\<close> error at the node's
  path when it matches none or more than one.
\<close>

theorem oneOf_exactly_one_branch:
  "validate vc (oneOfSchema [constSchema (JStr ''a''), constSchema (JStr ''b'')]) (JStr ''a'') path
     = Inr [] \<and>
   (\<exists>e. validate vc (oneOfSchema [constSchema (JStr ''a''), constSchema (JStr ''b'')])
           (JStr ''c'') path = Inr [e] \<and> ve_keyword e = ''oneOf'') \<and>
   ((\<forall>i < length bs. \<exists>errs. validate vc (bs ! i) v (path @ [Key ''oneOf'', Idx i]) = Inr errs) \<longrightarrow>
      validate vc (oneOfSchema bs) v path =
        Inr (if length (filter
                 (\<lambda>i. validate vc (bs ! i) v (path @ [Key ''oneOf'', Idx i]) = Inr [])
                 [0..<length bs]) = 1
             then [] else [mkError ''oneOf'' path ''The option is not valid'']))"
proof -
  have a: "validate vc (oneOfSchema [constSchema (JStr ''a''), constSchema (JStr ''b'')])
      (JStr ''a'') path = Inr []"
    by (simp add: validate_oneOfSchema validate_constSchema mapR_def oneOfErrors_def)
  have c: "validate vc (oneOfSchema [constSchema (JStr ''a''), constSchema (JStr ''b'')])
      (JStr ''c'') path = Inr [mkError ''oneOf'' path ''The option is not valid'']"
    by (simp add: validate_oneOfSchema validate_constSchema mapR_def oneOfErrors_def)
  have g: "validate vc (oneOfSchema bs) v path =
        Inr (if length (filter
                 (\<lambda>i. validate vc (bs ! i) v (path @ [Key ''oneOf'', Idx i]) = Inr [])
                 [0..<length bs]) = 1
             then [] else [mkError ''oneOf'' path ''The option is not valid''])"
    if all: "\<forall>i < length bs. \<exists>errs. validate vc (bs ! i) v (path @ [Key ''oneOf'', Idx i]) = Inr errs"
  proof -
    let ?f = "\<lambda>(n, s). validate vc s v (path @ [Key ''oneOf'', Idx n])"
    have "\<exists>y. ?f x = Inr y" if "x \<in> set (enumerate 0 bs)" for x
    proof -
      obtain n s where x: "x = (n, s)" by (cases x)
      with that have "n < length bs" "s = bs ! n" by (auto simp: in_set_enumerate_eq)
      with all x show ?thesis by auto
    qed
    then obtain results where r: "traverse ?f (enumerate 0 bs) = Inr results"
      using traverse_total [of "enumerate 0 bs" ?f] by blast
    from traverse_Inr [OF r] have len: "length results = length bs"
      and nth: "\<And>i. i < length bs \<Longrightarrow>
        validate vc (bs ! i) v (path @ [Key ''oneOf'', Idx i]) = Inr (results ! i)"
      by (auto simp: nth_enumerate_eq)
    have "filter (\<lambda>i. results ! i = []) [0..<length bs] =
          filter (\<lambda>i. validate vc (bs ! i) v (path @ [Key ''oneOf'', Idx i]) = Inr []) [0..<length bs]"
      by (rule filter_cong) (auto simp: nth)
    then have "length (filter (\<lambda>errs. errs = []) results) =
          length (filter (\<lambda>i. validate vc (bs ! i) v (path @ [Key ''oneOf'', Idx i]) = Inr [])
            [0..<length bs])"
      using count_by_index [OF len, of "\<lambda>errs. errs = []"] by simp
    then show ?thesis
      by (simp add: validate_oneOfSchema r mapR_def oneOfErrors_def)
  qed
  from a c g show ?thesis by (auto simp: mkError_def)
qed

text \<open>
  The theorem at two branches that both match (\<open>"a"\<close> against twice \<open>{const: "a"}\<close>:
  one \<open>oneOf\<close> error) and at two branches of which the second matches alone.
\<close>

theorem oneOf_exactly_one_branch_witness:
  "validate (contextOf standardOps defaultOptions (SBool True) JUndefined)
     (oneOfSchema [constSchema (JStr ''a''), constSchema (JStr ''a'')]) (JStr ''a'') []
   = Inr [mkError ''oneOf'' [] ''The option is not valid''] \<and>
   validate (contextOf standardOps defaultOptions (SBool True) JUndefined)
     (oneOfSchema [constSchema (JStr ''a''), constSchema (JNum (Fin 1))]) (JNum (Fin 1)) []
   = Inr []"
proof -
  let ?vc = "contextOf standardOps defaultOptions (SBool True) JUndefined"
  have h: "\<forall>i < length [constSchema (JStr ''a''), constSchema c].
      \<exists>errs. validate ?vc ([constSchema (JStr ''a''), constSchema c] ! i) v
        ([] @ [Key ''oneOf'', Idx i]) = Inr errs" for c v
    by (simp add: validate_constSchema less_Suc_eq nth_Cons')
  show ?thesis
    using h [of "JStr ''a''" "JStr ''a''"] h [of "JNum (Fin 1)" "JNum (Fin 1)"]
      oneOf_exactly_one_branch [of ?vc "[]" "[constSchema (JStr ''a''), constSchema (JStr ''a'')]"
        "JStr ''a''"]
      oneOf_exactly_one_branch [of ?vc "[]" "[constSchema (JStr ''a''), constSchema (JNum (Fin 1))]"
        "JNum (Fin 1)"]
    by (simp add: validate_constSchema)
qed

subsection \<open>Rule-referenced validations\<close>

text \<open>
  A node that holds nothing but the reference list \<open>refs\<close>, and the verdict on the
  value of a rule: no error when the value is truthy, one \<open>json-logic\<close> error with the
  message of the validation otherwise.
\<close>

definition referring :: "string list \<Rightarrow> schema" where
  "referring refs = leaf (emptyKeywords\<lparr>kw_validations := Some refs\<rparr>)"

definition ruleErrors :: "segment list \<Rightarrow> string \<Rightarrow> jsval \<Rightarrow> ValidationError list" where
  "ruleErrors path message r = (if ruleTruthy r then [] else [mkError ''json-logic'' path message])"

text \<open>
  The context \<open>frozen vc other\<close> has, for each named rule of \<open>vc\<close>, the literal of the
  value that the rule has on the form's values of \<open>vc\<close>, and it has \<open>other\<close> in the
  place of the form's values. A context is \<open>evaluable\<close> when each of its named rules
  has a value on its form's values (none of them fails).
\<close>

definition freezeRule ::
  "operators \<Rightarrow> jsval \<Rightarrow> string \<times> RuleExpression \<times> string \<Rightarrow> string \<times> RuleExpression \<times> string" where
  "freezeRule ops ctx named =
     (case named of
        (name, rule, message) \<Rightarrow>
          (name, (case evaluate ops rule ctx of Inr r \<Rightarrow> Lit r | Inl e \<Rightarrow> rule), message))"

definition frozen :: "validation_context \<Rightarrow> jsval \<Rightarrow> validation_context" where
  "frozen vc other =
     vc\<lparr>vc_rules := map (freezeRule (vc_operators vc) (vc_formValues vc)) (vc_rules vc),
        vc_formValues := other\<rparr>"

definition evaluable :: "validation_context \<Rightarrow> bool" where
  "evaluable vc =
     list_all (\<lambda>(name, rule, message).
        case evaluate (vc_operators vc) rule (vc_formValues vc) of Inr r \<Rightarrow> True | Inl e \<Rightarrow> False)
       (vc_rules vc)"

lemma map_of_freeze:
  "map_of (map (freezeRule ops ctx) rules) ref =
     map_option (\<lambda>(rule, message).
        ((case evaluate ops rule ctx of Inr r \<Rightarrow> Lit r | Inl e \<Rightarrow> rule), message))
       (map_of rules ref)"
  by (induction rules) (auto simp: freezeRule_def)

lemma validateRule_frozen:
  assumes "evaluable vc"
  shows "validateRule (frozen vc other) path ref = validateRule vc path ref"
proof (cases "map_of (vc_rules vc) ref")
  case None
  then show ?thesis by (simp add: validateRule_def frozen_def map_of_freeze)
next
  case (Some rm)
  obtain rule message where rm: "rm = (rule, message)" by (cases rm)
  from Some rm have "(ref, rule, message) \<in> set (vc_rules vc)" by (auto dest: map_of_SomeD)
  with assms obtain r where r: "evaluate (vc_operators vc) rule (vc_formValues vc) = Inr r"
    by (auto simp: evaluable_def list_all_iff split: sum.splits)
  with Some rm show ?thesis by (simp add: validateRule_def frozen_def map_of_freeze)
qed

lemma validateRules_frozen:
  assumes "evaluable vc"
  shows "validateRules (frozen vc other) refs path = validateRules vc refs path"
proof -
  have "validateRule (frozen vc other) path = validateRule vc path"
    by (rule ext) (rule validateRule_frozen [OF assms])
  then show ?thesis by (cases refs) (simp_all add: validateRules_def)
qed

lemma validate_context_cong:
  assumes "\<And>refs p. validateRules vc' refs p = validateRules vc refs p"
    and "vc_treatNullAsUndefined vc' = vc_treatNullAsUndefined vc"
    and "vc_allowForbiddenValues vc' = vc_allowForbiddenValues vc"
  shows "validate vc' s v path = validate vc s v path"
  using assms
proof (induction vc s v path rule: validate.induct)
  case (1 vc b v path)
  then show ?case by simp
next
  case (2 vc kw props items allOf anyOf oneOf nt i t e ri rt re v path)
  have pres: "present vc' x = present vc x" for x
    using "2.prems"(2) by (simp add: present_def)
  have req: "checkRequired vc' kw v path = checkRequired vc kw v path"
    by (simp add: checkRequired_def pres split: option.splits)
  show ?case
  proof (cases "kw_type kw \<noteq> [] \<and> \<not> list_ex (\<lambda>ty. matchesType ty v) (kw_type kw)")
    case True
    then show ?thesis by simp
  next
    case ok: False
    have p: "traverse
           (\<lambda>(name, s).
              if jsonType v = ''object'' \<and> present vc' (getprop v name)
              then validate vc' s (getprop v name) (path @ [Key ''properties'', Key name])
              else Inr [])
           props =
         traverse
           (\<lambda>(name, s).
              if jsonType v = ''object'' \<and> present vc (getprop v name)
              then validate vc s (getprop v name) (path @ [Key ''properties'', Key name])
              else Inr [])
           props"
    proof (rule traverse_cong [OF refl])
      fix x assume x: "x \<in> set props"
      obtain name s where ns: "x = (name, s)" by (cases x)
      show "(case x of (name, s) \<Rightarrow>
              if jsonType v = ''object'' \<and> present vc' (getprop v name)
              then validate vc' s (getprop v name) (path @ [Key ''properties'', Key name])
              else Inr []) =
            (case x of (name, s) \<Rightarrow>
              if jsonType v = ''object'' \<and> present vc (getprop v name)
              then validate vc s (getprop v name) (path @ [Key ''properties'', Key name])
              else Inr [])"
        using "2.IH"(1) [OF ok x ns [symmetric] _ "2.prems"] by (simp add: ns pres)
    qed
    have it: "traverse (\<lambda>(n, x). validate vc' s x (path @ [Key ''items'', Idx n]))
                (enumerate 0 (elements v)) =
              traverse (\<lambda>(n, x). validate vc s x (path @ [Key ''items'', Idx n]))
                (enumerate 0 (elements v))" if "items = Some s" for s
    proof (rule traverse_cong [OF refl])
      fix x assume x: "x \<in> set (enumerate 0 (elements v))"
      obtain n y where ny: "x = (n, y)" by (cases x)
      show "(case x of (n, x) \<Rightarrow> validate vc' s x (path @ [Key ''items'', Idx n])) =
            (case x of (n, x) \<Rightarrow> validate vc s x (path @ [Key ''items'', Idx n]))"
        using "2.IH"(2) [OF ok that x ny [symmetric] "2.prems"] by (simp add: ny)
    qed
    have al: "traverse (\<lambda>(n, s). validate vc' s v (path @ [Key ''allOf'', Idx n])) (enumerate 0 bs) =
              traverse (\<lambda>(n, s). validate vc s v (path @ [Key ''allOf'', Idx n])) (enumerate 0 bs)"
      if "allOf = Some bs" for bs
    proof (rule traverse_cong [OF refl])
      fix x assume x: "x \<in> set (enumerate 0 bs)"
      obtain n s where ns: "x = (n, s)" by (cases x)
      show "(case x of (n, s) \<Rightarrow> validate vc' s v (path @ [Key ''allOf'', Idx n])) =
            (case x of (n, s) \<Rightarrow> validate vc s v (path @ [Key ''allOf'', Idx n]))"
        using "2.IH"(3) [OF ok that x ns [symmetric] "2.prems"] by (simp add: ns)
    qed
    have an: "traverse (\<lambda>(n, s). validate vc' s v (path @ [Key ''anyOf'', Idx n])) (enumerate 0 bs) =
              traverse (\<lambda>(n, s). validate vc s v (path @ [Key ''anyOf'', Idx n])) (enumerate 0 bs)"
      if "anyOf = Some bs" for bs
    proof (rule traverse_cong [OF refl])
      fix x assume x: "x \<in> set (enumerate 0 bs)"
      obtain n s where ns: "x = (n, s)" by (cases x)
      show "(case x of (n, s) \<Rightarrow> validate vc' s v (path @ [Key ''anyOf'', Idx n])) =
            (case x of (n, s) \<Rightarrow> validate vc s v (path @ [Key ''anyOf'', Idx n]))"
        using "2.IH"(4) [OF ok that x ns [symmetric] "2.prems"] by (simp add: ns)
    qed
    have on: "traverse (\<lambda>(n, s). validate vc' s v (path @ [Key ''oneOf'', Idx n])) (enumerate 0 bs) =
              traverse (\<lambda>(n, s). validate vc s v (path @ [Key ''oneOf'', Idx n])) (enumerate 0 bs)"
      if "oneOf = Some bs" for bs
    proof (rule traverse_cong [OF refl])
      fix x assume x: "x \<in> set (enumerate 0 bs)"
      obtain n s where ns: "x = (n, s)" by (cases x)
      show "(case x of (n, s) \<Rightarrow> validate vc' s v (path @ [Key ''oneOf'', Idx n])) =
            (case x of (n, s) \<Rightarrow> validate vc s v (path @ [Key ''oneOf'', Idx n]))"
        using "2.IH"(5) [OF ok that x ns [symmetric] "2.prems"] by (simp add: ns)
    qed
    have no: "validate vc' s v (path @ [Key ''not'']) = validate vc s v (path @ [Key ''not''])"
      if "nt = Some s" for s
      using "2.IH"(6) [OF ok that "2.prems"] .
    show ?thesis
      unfolding validate.simps if_not_P [OF ok]
      by (simp add: p it al an on no req "2.prems"(1) del: collect.simps split: option.splits)
  qed
qed

lemma validate_frozen:
  "evaluable vc \<Longrightarrow> validate (frozen vc other) s v path = validate vc s v path"
  by (rule validate_context_cong) (simp_all add: validateRules_frozen, simp_all add: frozen_def)

text \<open>
  The spec's example of a rule-based validation: the named rule
  \<open>{">=": [{var: "age"}, 18]}\<close>, referenced from the field \<open>age\<close>.
\<close>

definition adult :: RuleExpression where
  "adult = Op ''>='' [Var [''age''], Lit (JNum (Fin 18))]"

definition ageForm :: schema where
  "ageForm =
     object (emptyKeywords\<lparr>kw_rules := Some [(''adult'', adult, ''Must be 18 or older'')]\<rparr>)
       [(''age'', referring [''adult''])]"

text \<open>
  A cross-field rule two levels down: \<open>{"<=": [{var: "person.age"}, {var: "limit"}]}\<close>,
  referenced from the field \<open>age\<close> of the object \<open>person\<close>, the limit being a field of the
  root; and the values \<open>{limit, person: {age}}\<close>.
\<close>

definition underLimit :: RuleExpression where
  "underLimit = Op ''<='' [Var [''person'', ''age''], Var [''limit'']]"

definition limitForm :: schema where
  "limitForm =
     object (emptyKeywords\<lparr>kw_rules := Some [(''underLimit'', underLimit, ''Over the limit'')]\<rparr>)
       [(''limit'', leaf emptyKeywords),
        (''person'', object emptyKeywords [(''age'', referring [''underLimit''])])]"

definition limitValues :: "rat \<Rightarrow> rat \<Rightarrow> jsval" where
  "limitValues limit age =
     JObj [(''limit'', JNum (Fin limit)), (''person'', JObj [(''age'', JNum (Fin age))])]"

text \<open>
  A rule referenced from the items of an array:
  \<open>{"<=": [{var: "tags.0"}, {var: "max"}]}\<close> on each element of \<open>tags\<close>; and the values
  \<open>{max, tags: [a, b]}\<close>.
\<close>

definition firstWithinMax :: RuleExpression where
  "firstWithinMax = Op ''<='' [Var [''tags'', ''0''], Var [''max'']]"

definition arrayOf :: "schema \<Rightarrow> schema" where
  "arrayOf s = SNode emptyKeywords [] (Some s) None None None None None None None None None None"

definition tagsForm :: schema where
  "tagsForm =
     object (emptyKeywords\<lparr>kw_rules := Some [(''firstWithinMax'', firstWithinMax, ''Too large'')]\<rparr>)
       [(''max'', leaf emptyKeywords), (''tags'', arrayOf (referring [''firstWithinMax'']))]"

definition tagsValues :: "rat \<Rightarrow> rat \<Rightarrow> rat \<Rightarrow> jsval" where
  "tagsValues m a b =
     JObj [(''max'', JNum (Fin m)), (''tags'', JArr [JNum (Fin a), JNum (Fin b)])]"

lemma validate_referring_checks:
  "checkConst (emptyKeywords\<lparr>kw_validations := r\<rparr>) v path = []"
  "checkEnum (emptyKeywords\<lparr>kw_validations := r\<rparr>) v path = []"
  "checkString (emptyKeywords\<lparr>kw_validations := r\<rparr>) v path = []"
  "checkNumber (emptyKeywords\<lparr>kw_validations := r\<rparr>) v path = []"
  "checkRequired vc (emptyKeywords\<lparr>kw_validations := r\<rparr>) v path = []"
  "kw_type (emptyKeywords\<lparr>kw_validations := r\<rparr>) = []"
  by (simp_all add: emptyKeywords_def checkConst_def checkEnum_def checkString_def checkNumber_def
      checkRequired_def split: jsval.splits jsnum.splits)

lemma collect_single: "collect [x] = x"
  by (cases x) simp_all

lemma collect_nil_Cons: "collect (Inr [] # rest) = collect rest"
  by (cases "collect rest") simp_all

lemma validate_referring:
  "validate vc (referring refs) v path = validateRules vc (Some refs) path"
  by (simp add: referring_def leaf_def validate_referring_checks collect_single collect_nil_Cons
      mapR_def del: collect.simps)

lemma validate_rules_checks:
  "checkConst (emptyKeywords\<lparr>kw_rules := r\<rparr>) v path = []"
  "checkEnum (emptyKeywords\<lparr>kw_rules := r\<rparr>) v path = []"
  "checkString (emptyKeywords\<lparr>kw_rules := r\<rparr>) v path = []"
  "checkNumber (emptyKeywords\<lparr>kw_rules := r\<rparr>) v path = []"
  "checkRequired vc (emptyKeywords\<lparr>kw_rules := r\<rparr>) v path = []"
  "kw_type (emptyKeywords\<lparr>kw_rules := r\<rparr>) = []"
  "validateRules vc (kw_validations (emptyKeywords\<lparr>kw_rules := r\<rparr>)) path = Inr []"
  by (simp_all add: emptyKeywords_def checkConst_def checkEnum_def checkString_def checkNumber_def
      checkRequired_def validateRules_def split: jsval.splits jsnum.splits)

lemma validate_leaf_empty: "validate vc (leaf emptyKeywords) v path = Inr []"
  by (simp add: leaf_def validate_empty_checks mapR_def)

lemma validate_object_rules:
  "validate vc (object (emptyKeywords\<lparr>kw_rules := r\<rparr>) props) v path =
     mapR concat (traverse
           (\<lambda>(name, s).
              if jsonType v = ''object'' \<and> present vc (getprop v name)
              then validate vc s (getprop v name) (path @ [Key ''properties'', Key name])
              else Inr [])
           props)"
  by (simp add: object_def validate_rules_checks validate_empty_checks mapR_def
      split: sum.splits)

lemma validate_object_empty:
  "validate vc (object emptyKeywords props) v path =
     mapR concat (traverse
           (\<lambda>(name, s).
              if jsonType v = ''object'' \<and> present vc (getprop v name)
              then validate vc s (getprop v name) (path @ [Key ''properties'', Key name])
              else Inr [])
           props)"
  by (simp add: object_def validate_empty_checks mapR_def split: sum.splits)

lemma validateRules_single:
  "map_of (vc_rules vc) ref = Some (rule, message) \<Longrightarrow>
   validateRules vc (Some [ref]) path =
     mapR (ruleErrors path message) (evaluate (vc_operators vc) rule (vc_formValues vc))"
  by (simp add: validateRules_def validateRule_def mapR_def ruleErrors_def split: sum.splits)

lemma evaluate_adult:
  "evaluate \<lparr>builtinOps = standardOps, customOps = []\<rparr> adult (JObj [(''age'', JNum (Fin n))]) =
     Inr (JBool (n \<ge> 18))"
  by (simp add: adult_def lookupOp_def standardOps_def returning_def compareNumbers_def getprop_JObj iterators_def)

lemma evaluate_underLimit:
  "evaluate \<lparr>builtinOps = standardOps, customOps = []\<rparr> underLimit (limitValues limit age) =
     Inr (JBool (age \<le> limit))"
  by (simp add: underLimit_def limitValues_def lookupOp_def standardOps_def returning_def compareNumbers_def
      getprop_JObj iterators_def)

lemma validate_ageForm_rules:
  "\<not> vc_treatNullAsUndefined vc \<Longrightarrow>
   validate vc ageForm (JObj [(''age'', JNum (Fin n))]) [] =
     validateRules vc (Some [''adult'']) [Key ''properties'', Key ''age'']"
  by (cases "validateRules vc (Some [''adult'']) [Key ''properties'', Key ''age'']")
     (simp_all add: ageForm_def validate_object_rules validate_referring present_def
      getprop_JObj mapR_def)

lemma validate_limitForm_rules:
  "\<not> vc_treatNullAsUndefined vc \<Longrightarrow>
   validate vc limitForm (limitValues limit age) [] =
     validateRules vc (Some [''underLimit''])
       [Key ''properties'', Key ''person'', Key ''properties'', Key ''age'']"
  by (cases "validateRules vc (Some [''underLimit''])
        [Key ''properties'', Key ''person'', Key ''properties'', Key ''age'']")
     (simp_all add: limitForm_def limitValues_def validate_object_rules validate_object_empty
      validate_leaf_empty validate_referring present_def getprop_JObj mapR_def)

lemma validate_ageForm:
  "validate (contextOf standardOps defaultOptions ageForm (JObj [(''age'', JNum (Fin n))]))
       ageForm (JObj [(''age'', JNum (Fin n))]) [] =
     Inr (if n \<ge> 18 then []
          else [mkError ''json-logic'' [Key ''properties'', Key ''age''] ''Must be 18 or older''])"
proof -
  let ?vc = "contextOf standardOps defaultOptions ageForm (JObj [(''age'', JNum (Fin n))])"
  have vc: "vc_operators ?vc = \<lparr>builtinOps = standardOps, customOps = []\<rparr>"
    "vc_formValues ?vc = JObj [(''age'', JNum (Fin n))]"
    "map_of (vc_rules ?vc) ''adult'' = Some (adult, ''Must be 18 or older'')"
    "\<not> vc_treatNullAsUndefined ?vc"
    by (simp_all add: contextOf_def defaultOptions_def ageForm_def object_def)
  show ?thesis
    by (simp only: validate_ageForm_rules [OF vc(4)] validateRules_single [OF vc(3)] vc(1,2)
        evaluate_adult)
      (simp add: mapR_def ruleErrors_def)
qed

lemma validate_limitForm:
  "validate (contextOf standardOps defaultOptions limitForm (limitValues limit age))
       limitForm (limitValues limit age) [] =
     Inr (if age \<le> limit then []
          else [mkError ''json-logic''
                  [Key ''properties'', Key ''person'', Key ''properties'', Key ''age'']
                  ''Over the limit''])"
proof -
  let ?vc = "contextOf standardOps defaultOptions limitForm (limitValues limit age)"
  have vc: "vc_operators ?vc = \<lparr>builtinOps = standardOps, customOps = []\<rparr>"
    "vc_formValues ?vc = limitValues limit age"
    "map_of (vc_rules ?vc) ''underLimit'' = Some (underLimit, ''Over the limit'')"
    "\<not> vc_treatNullAsUndefined ?vc"
    by (simp_all add: contextOf_def defaultOptions_def limitForm_def object_def)
  show ?thesis
    by (simp only: validate_limitForm_rules [OF vc(4)] validateRules_single [OF vc(3)] vc(1,2)
        evaluate_underLimit)
      (simp add: mapR_def ruleErrors_def)
qed

lemma evaluate_firstWithinMax:
  "evaluate \<lparr>builtinOps = standardOps, customOps = []\<rparr> firstWithinMax (tagsValues m a b) =
     Inr (JBool (a \<le> m))"
  apply (simp add: firstWithinMax_def tagsValues_def lookupOp_def standardOps_def returning_def compareNumbers_def
      getprop_JObj iterators_def)
  apply (simp add: getprop_def own_entries_def index_key_def digit_char_def)
  done

lemma validate_arrayOf:
  "validate vc (arrayOf s) v path =
     mapR concat (traverse (\<lambda>(n, x). validate vc s x (path @ [Key ''items'', Idx n]))
       (enumerate 0 (elements v)))"
  by (simp add: arrayOf_def validate_empty_checks mapR_def split: sum.splits)

lemma validate_tagsForm_rules:
  "\<not> vc_treatNullAsUndefined vc \<Longrightarrow>
   validate vc tagsForm (tagsValues m a b) [] =
     mapR concat (traverse
       (\<lambda>n. validateRules vc (Some [''firstWithinMax''])
          [Key ''properties'', Key ''tags'', Key ''items'', Idx n]) [0, 1])"
  by (simp add: tagsForm_def tagsValues_def validate_object_rules validate_leaf_empty
      validate_arrayOf validate_referring present_def getprop_JObj mapR_def split: sum.splits)

lemma validate_tagsForm:
  "validate (contextOf standardOps defaultOptions tagsForm (tagsValues m a b))
       tagsForm (tagsValues m a b) [] =
     Inr (if a \<le> m then []
          else [mkError ''json-logic'' [Key ''properties'', Key ''tags'', Key ''items'', Idx 0]
                  ''Too large'',
                mkError ''json-logic'' [Key ''properties'', Key ''tags'', Key ''items'', Idx 1]
                  ''Too large''])"
proof -
  let ?vc = "contextOf standardOps defaultOptions tagsForm (tagsValues m a b)"
  have vc: "vc_operators ?vc = \<lparr>builtinOps = standardOps, customOps = []\<rparr>"
    "vc_formValues ?vc = tagsValues m a b"
    "map_of (vc_rules ?vc) ''firstWithinMax'' = Some (firstWithinMax, ''Too large'')"
    "\<not> vc_treatNullAsUndefined ?vc"
    by (simp_all add: contextOf_def defaultOptions_def tagsForm_def object_def)
  show ?thesis
    by (simp only: validate_tagsForm_rules [OF vc(4)] validateRules_single [OF vc(3)] vc(1,2)
        evaluate_firstWithinMax)
      (simp add: mapR_def ruleErrors_def)
qed

lemma collect_last:
  "collect xs = Inr errs \<Longrightarrow> xs \<noteq> [] \<Longrightarrow> \<exists>before rs. last xs = Inr rs \<and> errs = before @ rs"
proof (induction xs arbitrary: errs rule: collect.induct)
  case 1
  then show ?case by simp
next
  case (2 e rest)
  then show ?case by simp
next
  case (3 ys rest)
  show ?case
  proof (cases "rest = []")
    case True
    with "3.prems" show ?thesis by auto
  next
    case False
    from "3.prems"(1) obtain zs where zs: "collect rest = Inr zs" and errs: "errs = ys @ zs"
      by (auto split: sum.splits)
    from "3.IH" [OF zs False] obtain before rs where "last rest = Inr rs" "zs = before @ rs"
      by blast
    with False errs show ?thesis by auto
  qed
qed

lemma validate_rules_last:
  assumes v: "validate vc (SNode kw ps it ao an oo nt i t e ri rt re) v path = Inr errs"
    and ok: "kw_type kw = [] \<or> list_ex (\<lambda>ty. matchesType ty v) (kw_type kw)"
  shows "\<exists>before rs. validateRules vc (kw_validations kw) path = Inr rs \<and> errs = before @ rs"
proof -
  from ok have ok': "\<not> (kw_type kw \<noteq> [] \<and> \<not> list_ex (\<lambda>ty. matchesType ty v) (kw_type kw))" by blast
  show ?thesis
    using collect_last [OF v [unfolded validate.simps if_not_P [OF ok']]] by simp
qed

lemma evaluable_limitForm:
  "evaluable (contextOf standardOps defaultOptions limitForm (limitValues limit age))"
  by (simp add: evaluable_def contextOf_def defaultOptions_def limitForm_def object_def
      emptyKeywords_def evaluate_underLimit)



subsection \<open>Options of a field\<close>

lemma allFields_buildField:
  "f \<in> set (allFields (buildField loaders req name s)) \<Longrightarrow>
   \<exists>req' name' c. f = buildField loaders req' name' c"
proof (induction loaders req name s arbitrary: f rule: buildField.induct)
  case (1 loaders req name b)
  then have "f = buildField loaders req name (SBool b)"
    by (subst (asm) allFields.simps) auto
  then show ?case by blast
next
  case (2 loaders req name kw ps it ao an oo nt i t e ri rt re)
  let ?field = "buildField loaders req name (SNode kw ps it ao an oo nt i t e ri rt re)"
  from "2.prems" have "f = ?field \<or> (\<exists>g \<in> set (optionalList (f_fields ?field)). f \<in> set (allFields g))"
    by (subst (asm) allFields.simps) auto
  then show ?case
  proof
    assume "f = ?field"
    then show ?thesis by blast
  next
    assume "\<exists>g \<in> set (optionalList (f_fields ?field)). f \<in> set (allFields g)"
    then obtain g where g: "g \<in> set (optionalList (f_fields ?field))" and f: "f \<in> set (allFields g)"
      by auto
    show ?thesis
    proof (cases "''object'' \<in> set (kw_type kw)")
      case True
      with g obtain n c where nc: "(n, c) \<in> set ps"
        and gg: "g = buildField loaders (optionalList (kw_required kw)) n c"
        by auto
      from "2.IH"(1) [OF True nc refl] f gg show ?thesis by simp
    next
      case False
      with g obtain req' ps' where ip: "itemProperties it = Some (req', ps')"
        and arr: "''array'' \<in> set (kw_type kw)"
        and g': "g \<in> set (map (\<lambda>(n, c). buildField loaders req' n c) ps')"
        by (auto split: option.splits if_splits)
      from g' obtain n c where nc: "(n, c) \<in> set ps'" and gg: "g = buildField loaders req' n c"
        by auto
      from "2.IH"(2) [OF False ip refl arr nc refl] f gg show ?thesis by simp
    qed
  qed
qed

lemma buildField_async:
  "kw_asyncOptions kw = Some config \<Longrightarrow>
   f_asyncOptions (buildField loaders req name (SNode kw ps it ao an oo nt i t e ri rt re)) =
     Some (FieldAsyncOptions config (map_of loaders (ao_id config))) \<and>
   f_options (buildField loaders req name (SNode kw ps it ao an oo nt i t e ri rt re)) =
     presentationOptions kw"
  by (simp split: option.splits)

lemma buildField_no_async:
  "f_asyncOptions (buildField loaders req name s) \<noteq> None \<Longrightarrow>
   \<exists>kw ps it ao an oo nt i t e ri rt re config.
     s = SNode kw ps it ao an oo nt i t e ri rt re \<and> kw_asyncOptions kw = Some config"
  by (cases s) (auto split: option.splits)

lemma both_from_presentation:
  assumes "f \<in> set (allFields (buildField loaders req name s))"
    and "f_asyncOptions f \<noteq> None"
  shows "\<exists>req' name' c. f = buildField loaders req' name' c \<and>
           f_options f = presentationOptions (s_keywords c)"
proof -
  from allFields_buildField [OF assms(1)] obtain req' name' c
    where f: "f = buildField loaders req' name' c" by blast
  from buildField_no_async [of loaders req' name' c] assms(2) f
  obtain kw ps it ao an oo nt i t e ri rt re config
    where c: "c = SNode kw ps it ao an oo nt i t e ri rt re" and a: "kw_asyncOptions kw = Some config"
    by auto
  from buildField_async [OF a, of loaders req' name' ps it ao an oo nt i t e ri rt re] f c
  have "f_options f = presentationOptions (s_keywords c)" by simp
  with f show ?thesis by blast
qed

text \<open>
  The field of the test \<open>should not add static options when asyncOptions is present\<close>,
  with an \<open>enum\<close> added to its schema; the same with an \<open>options\<close> array among its
  presentation hints; and a form that has the first as its property.
\<close>

definition countries :: AsyncOptionsConfig where
  "countries = AsyncOptionsConfig ''countries-loader'' None None None None None"

definition countryKeywords :: node_keywords where
  "countryKeywords =
     emptyKeywords\<lparr>kw_type := [''string''], kw_title := Some ''Country'',
       kw_enum := Some [JStr ''us''], kw_inputType := Some ''select'',
       kw_asyncOptions := Some countries\<rparr>"

definition country :: schema where
  "country = leaf countryKeywords"

definition countryListed :: schema where
  "countryListed =
     leaf (countryKeywords\<lparr>kw_presentation :=
       [(''options'', JArr [fieldOption ''USA'' (JStr ''us'')])]\<rparr>)"

definition countryForm :: schema where
  "countryForm = object (emptyKeywords\<lparr>kw_type := [''object'']\<rparr>) [(''country'', country)]"




end
